theory Spec2Isabelle
  imports Main "HOL-Library.Word" "HOL-Library.AList"
begin

section \<open>Errors and bytes\<close>

text \<open>
  The Go sources report failures as \<^verbatim>\<open>error\<close> values built from message strings. Each
  distinct failure that the modelled functions can return is a constructor here; the
  comment gives the place in the source that produces it.
\<close>

datatype error =
    OpenError                 \<comment> \<open>\<^verbatim>\<open>os.Open\<close> failed\<close>
  | EOF                       \<comment> \<open>\<^verbatim>\<open>f.Read\<close> returned \<^verbatim>\<open>io.EOF\<close>: no byte could be read\<close>
  | UnsupportedCompression    \<comment> \<open>"Unsupported compression."\<close>
  | NoSourceName              \<comment> \<open>"you must specify a source container name"\<close>
  | IllegalCopy               \<comment> \<open>"can't copy to the same container name"\<close>
  | MissingProfiles           \<comment> \<open>"not all the profiles from the source exist on the target"\<close>
  | NilMapAssignment          \<comment> \<open>run-time panic "assignment to entry in nil map"\<close>
  | IndexOutOfRange           \<comment> \<open>run-time panic "index out of range"\<close>
  | FingerprintMismatch       \<comment> \<open>"fingerprints don't match, got %s expected %s"\<close>
  | InvalidMultipart          \<comment> \<open>"Invalid multipart image"\<close>
  | ImageExists               \<comment> \<open>"Image already exists."\<close>
  | NoSuchObject              \<comment> \<open>a row query that found no row\<close>
  | UniqueConstraint          \<comment> \<open>an INSERT refused by a unique index\<close>
  | SqlSyntaxError            \<comment> \<open>a statement the SQL engine cannot parse\<close>
  | PathError                 \<comment> \<open>\<^verbatim>\<open>os.Remove\<close> or \<^verbatim>\<open>os.Rename\<close> on a path that does not exist\<close>
  | Failure string            \<comment> \<open>an error handed back by a collaborator, with its message\<close>

type_synonym byte = "8 word"

text \<open>Go's go_slice expression \<^verbatim>\<open>xs[lo:hi]\<close>, used only with \<open>lo \<le> hi \<le> length xs\<close>.\<close>

definition go_slice :: "'a list \<Rightarrow> nat \<Rightarrow> nat \<Rightarrow> 'a list" where
  "go_slice xs lo hi = take (hi - lo) (drop lo xs)"

section \<open>Compression sniffer: \<^verbatim>\<open>detectCompression\<close>\<close>

text \<open>
  \<^verbatim>\<open>header := make([]byte, 263); _, err = f.Read(header)\<close>: the buffer starts as 263 zero
  bytes and \<^verbatim>\<open>Read\<close> overwrites its first \<open>min 263 (length contents)\<close> bytes. The
  number of bytes read is discarded by the source.
\<close>

definition read_header :: "byte list \<Rightarrow> byte list" where
  "read_header contents = take 263 contents @ replicate (263 - length contents) 0"

text \<open>
  \<^verbatim>\<open>detectCompression\<close> of \<^verbatim>\<open>src/lxd/images.go\<close>. The file system is a map from
  paths to file contents; a path outside its domain cannot be opened. \<^verbatim>\<open>Read\<close> on a
  regular file fails (with \<^verbatim>\<open>io.EOF\<close>) exactly when no byte is available. The byte
  values are \<open>'B' = 0x42\<close>, \<open>'Z' = 0x5A\<close>, \<open>'7' = 0x37\<close>, \<open>'z' = 0x7A\<close>, \<open>'X' = 0x58\<close>,
  and \<open>"ustar" = 75 73 74 61 72\<close>.
\<close>

definition detectCompression ::
  "(string \<rightharpoonup> byte list) \<Rightarrow> string \<Rightarrow> error + (string list \<times> string)" where
  "detectCompression fs fname =
     (case fs fname of
        None \<Rightarrow> Inl OpenError
      | Some contents \<Rightarrow>
          if contents = [] then Inl EOF
          else
            let header = read_header contents in
            if go_slice header 0 2 = [0x42, 0x5A] then Inr ([''--jxf''], ''.tar.bz2'')
            else if go_slice header 0 2 = [0x1f, 0x8b] then Inr ([''-zxf''], ''.tar.gz'')
            else if go_slice header 1 5 = [0x37, 0x7A, 0x58, 0x5A] \<and> header ! 0 = 0xFD
              then Inr ([''-Jxf''], ''.tar.xz'')
            else if go_slice header 1 5 = [0x37, 0x7A, 0x58, 0x5A] \<and> header ! 0 \<noteq> 0xFD
              then Inr ([''--lzma'', ''-xf''], ''.tar.lzma'')
            else if go_slice header 257 262 = [0x75, 0x73, 0x74, 0x61, 0x72]
              then Inr ([''-xf''], ''.tar'')
            else Inl UnsupportedCompression)"

text \<open>
  The older \<^verbatim>\<open>detectCompression\<close> of \<^verbatim>\<open>src/unnamed/part_000\<close> returns one of the
  \<^verbatim>\<open>COMPRESSION_*\<close> constants instead of the \<^verbatim>\<open>tar\<close> arguments and never looks at the
  error of \<^verbatim>\<open>Read\<close>: an empty file is classified from the all-zero buffer.
\<close>

datatype compression =
  COMPRESSION_TAR | COMPRESSION_GZIP | COMPRESSION_BZ2 | COMPRESSION_LZMA | COMPRESSION_XZ

definition detectCompression_part000 ::
  "(string \<rightharpoonup> byte list) \<Rightarrow> string \<Rightarrow> error + (compression \<times> string)" where
  "detectCompression_part000 fs fname =
     (case fs fname of
        None \<Rightarrow> Inl OpenError
      | Some contents \<Rightarrow>
          let header = read_header contents in
          if go_slice header 0 2 = [0x42, 0x5A] then Inr (COMPRESSION_BZ2, ''.tar.bz2'')
          else if go_slice header 0 2 = [0x1f, 0x8b] then Inr (COMPRESSION_GZIP, ''.tar.gz'')
          else if go_slice header 1 5 = [0x37, 0x7A, 0x58, 0x5A] \<and> header ! 0 = 0xFD
            then Inr (COMPRESSION_XZ, ''.tar.xz'')
          else if go_slice header 1 5 = [0x37, 0x7A, 0x58, 0x5A] \<and> header ! 0 \<noteq> 0xFD
            then Inr (COMPRESSION_LZMA, ''.tar.lzma'')
          else if go_slice header 257 262 = [0x75, 0x73, 0x74, 0x61, 0x72]
            then Inr (COMPRESSION_TAR, ''.tar'')
          else Inl UnsupportedCompression)"

subsection \<open>What the sniffer tests\<close>

lemma magic_in_padding:
  fixes m :: "byte list"
  assumes "0 \<notin> set m" and "length m = k"
  shows "take k (drop lo (c @ replicate n 0)) = m \<longleftrightarrow> take k (drop lo c) = m"
proof -
  define A where "A = take k (drop lo c)"
  define B where "B = take (k - (length c - lo)) (drop (lo - length c) (replicate n (0::byte)))"
  have split: "take k (drop lo (c @ replicate n 0)) = A @ B"
    by (simp add: A_def B_def)
  have zeros: "set B \<subseteq> {0}"
    unfolding B_def by (auto dest!: in_set_takeD in_set_dropD)
  show ?thesis
  proof
    assume "take k (drop lo (c @ replicate n 0)) = m"
    then have eq: "A @ B = m" unfolding split .
    then have "set B \<subseteq> set m" by auto
    with zeros assms(1) have "B = []" by (cases B) auto
    with eq show "take k (drop lo c) = m" by (simp add: A_def)
  next
    assume a: "take k (drop lo c) = m"
    then have "length (take k (drop lo c)) = k" using assms(2) by simp
    then have "k \<le> length c - lo" by simp
    then have "B = []" by (simp add: B_def)
    with a show "take k (drop lo (c @ replicate n 0)) = m" unfolding split by (simp add: A_def)
  qed
qed

lemma read_header_short: "length c < 263 \<Longrightarrow> read_header c = c @ replicate (263 - length c) 0"
  by (simp add: read_header_def)

lemma read_header_first: "c \<noteq> [] \<Longrightarrow> read_header c ! 0 = c ! 0"
  by (cases c) (simp_all add: read_header_def)

lemma read_header_length: "length (read_header c) = 263"
  by (simp add: read_header_def)

lemma list_of_five:
  "length xs = Suc (Suc (Suc (Suc (Suc 0)))) \<Longrightarrow> \<exists>a b c d e. xs = [a, b, c, d, e]"
  by (auto simp: length_Suc_conv)

lemma five_bytes:
  assumes "length (h :: byte list) = 263"
  shows "\<exists>x0 x1 x2 x3 x4 rest. h = x0 # x1 # x2 # x3 # x4 # rest"
proof -
  have "length (take 5 h) = Suc (Suc (Suc (Suc (Suc 0))))" using assms by simp
  from list_of_five [OF this] obtain x0 x1 x2 x3 x4 where "take 5 h = [x0, x1, x2, x3, x4]"
    by blast
  then have "h = x0 # x1 # x2 # x3 # x4 # drop 5 h"
    by (metis append_take_drop_id append_Cons append_Nil)
  then show ?thesis by blast
qed

text \<open>
  What the third and fourth case of the switch test: for a file that can be opened and
  read, the result is xz exactly when bytes 1 to 4 of the header are \<open>37 7A 58 5A\<close> and
  byte 0 is \<open>FD\<close>, and lzma exactly when bytes 1 to 4 are \<open>37 7A 58 5A\<close> and byte 0 is
  anything else. Byte 5 is not read.
\<close>

lemma detectCompression_xz_lzma_tests:
  assumes "files fname = Some c" and "c \<noteq> []"
  shows "(detectCompression files fname = Inr ([''-Jxf''], ''.tar.xz'')
            \<longleftrightarrow> go_slice (read_header c) 1 5 = [0x37, 0x7A, 0x58, 0x5A] \<and> read_header c ! 0 = 0xFD)
       \<and> (detectCompression files fname = Inr ([''--lzma'', ''-xf''], ''.tar.lzma'')
            \<longleftrightarrow> go_slice (read_header c) 1 5 = [0x37, 0x7A, 0x58, 0x5A] \<and> read_header c ! 0 \<noteq> 0xFD)"
proof -
  obtain x0 x1 x2 x3 x4 rest where h: "read_header c = x0 # x1 # x2 # x3 # x4 # rest"
    using five_bytes [OF read_header_length] by blast
  show ?thesis
    using assms by (auto simp: detectCompression_def h go_slice_def Let_def)
qed

text \<open>
  C5 fails on the code at these two full-length headers. The first starts
  \<open>FD 37 7A 58 5A 01\<close>: its sixth byte is not \<open>00\<close>, yet it is classified as xz, because
  only \<^verbatim>\<open>header[1:5]\<close> and \<^verbatim>\<open>header[0]\<close> are compared. The second starts
  \<open>FF 37 7A 58 5A 00\<close>: its first byte is above \<open>E0\<close>, yet it is classified as lzma,
  because the first byte is only compared with \<open>FD\<close>.
\<close>

theorem detectCompression_loose_magic:
  "detectCompression
       (Map.empty(''img'' \<mapsto> [0xFD, 0x37, 0x7A, 0x58, 0x5A, 0x01] @ replicate 257 0)) ''img''
     = Inr ([''-Jxf''], ''.tar.xz'')
   \<and> detectCompression
       (Map.empty(''img'' \<mapsto> [0xFF, 0x37, 0x7A, 0x58, 0x5A, 0x00] @ replicate 257 0)) ''img''
     = Inr ([''--lzma'', ''-xf''], ''.tar.lzma'')
   \<and> detectCompression_part000
       (Map.empty(''img'' \<mapsto> [0xFD, 0x37, 0x7A, 0x58, 0x5A, 0x01] @ replicate 257 0)) ''img''
     = Inr (COMPRESSION_XZ, ''.tar.xz'')
   \<and> detectCompression_part000
       (Map.empty(''img'' \<mapsto> [0xFF, 0x37, 0x7A, 0x58, 0x5A, 0x00] @ replicate 257 0)) ''img''
     = Inr (COMPRESSION_LZMA, ''.tar.lzma'')"
  by (simp add: detectCompression_def detectCompression_part000_def read_header_def go_slice_def)

text \<open>
  C6 as stated fails: a file of two bytes \<open>42 5A\<close> is classified as bzip2 although fewer
  than 263 bytes are available.
\<close>

theorem detectCompression_short_counterexample:
  "length [0x42, 0x5A :: byte] < 263
   \<and> detectCompression (Map.empty(''img'' \<mapsto> [0x42, 0x5A])) ''img''
       = Inr ([''--jxf''], ''.tar.bz2'')
   \<and> detectCompression_part000 (Map.empty(''img'' \<mapsto> [0x42, 0x5A])) ''img''
       = Inr (COMPRESSION_BZ2, ''.tar.bz2'')"
  by (simp add: detectCompression_def detectCompression_part000_def read_header_def go_slice_def)

text \<open>
  C6, amended. The number of bytes read is not examined. For a file from which fewer than
  263 bytes are available: when no byte is available the read error is returned; otherwise
  the magic tests are applied to the bytes that are available, so the file is classified
  when it starts with one of the magics (or, with exactly 262 bytes, carries \<open>ustar\<close> at
  offset 257), and UnsupportedCompression is returned only when no test matches.
\<close>

theorem detectCompression_short_file:
  assumes "fs fname = Some c" and "length c < 263"
  shows "detectCompression fs fname =
    (if c = [] then Inl EOF
     else if go_slice c 0 2 = [0x42, 0x5A] then Inr ([''--jxf''], ''.tar.bz2'')
     else if go_slice c 0 2 = [0x1f, 0x8b] then Inr ([''-zxf''], ''.tar.gz'')
     else if go_slice c 1 5 = [0x37, 0x7A, 0x58, 0x5A] \<and> c ! 0 = 0xFD
       then Inr ([''-Jxf''], ''.tar.xz'')
     else if go_slice c 1 5 = [0x37, 0x7A, 0x58, 0x5A] \<and> c ! 0 \<noteq> 0xFD
       then Inr ([''--lzma'', ''-xf''], ''.tar.lzma'')
     else if go_slice c 257 262 = [0x75, 0x73, 0x74, 0x61, 0x72]
       then Inr ([''-xf''], ''.tar'')
     else Inl UnsupportedCompression)"
proof (cases "c = []")
  case True
  with assms show ?thesis by (simp add: detectCompression_def)
next
  case False
  have h: "read_header c = c @ replicate (263 - length c) 0"
    using assms(2) by (rule read_header_short)
  have m1: "go_slice (read_header c) 0 2 = [0x42, 0x5A] \<longleftrightarrow> go_slice c 0 2 = [0x42, 0x5A]"
    unfolding h go_slice_def by (rule magic_in_padding) simp_all
  have m2: "go_slice (read_header c) 0 2 = [0x1f, 0x8b] \<longleftrightarrow> go_slice c 0 2 = [0x1f, 0x8b]"
    unfolding h go_slice_def by (rule magic_in_padding) simp_all
  have m3: "go_slice (read_header c) 1 5 = [0x37, 0x7A, 0x58, 0x5A]
      \<longleftrightarrow> go_slice c 1 5 = [0x37, 0x7A, 0x58, 0x5A]"
    unfolding h go_slice_def by (rule magic_in_padding) simp_all
  have m4: "go_slice (read_header c) 257 262 = [0x75, 0x73, 0x74, 0x61, 0x72]
      \<longleftrightarrow> go_slice c 257 262 = [0x75, 0x73, 0x74, 0x61, 0x72]"
    unfolding h go_slice_def by (rule magic_in_padding) simp_all
  show ?thesis
    using assms(1) False
    by (simp add: detectCompression_def Let_def m1 m2 m3 [unfolded One_nat_def] m4
        read_header_first)
qed

theorem detectCompression_short_file_witness:
  "detectCompression (Map.empty(''img'' \<mapsto> [0x1f, 0x8b, 0x08])) ''img''
     = Inr ([''-zxf''], ''.tar.gz'')"
  using detectCompression_short_file [of "Map.empty(''img'' \<mapsto> [0x1f, 0x8b, 0x08])" "''img''"
      "[0x1f, 0x8b, 0x08]"]
  by (simp add: go_slice_def)

text \<open>
  The older variant does not look at the error of \<^verbatim>\<open>Read\<close> either: an empty file is
  classified from the all-zero buffer and yields UnsupportedCompression.
\<close>

lemma detectCompression_part000_empty_file:
  "detectCompression_part000 (Map.empty(''img'' \<mapsto> [])) ''img'' = Inl UnsupportedCompression"
  by code_simp

section \<open>Image properties from the \<^verbatim>\<open>X-LXD-properties\<close> headers\<close>

text \<open>
  \<^verbatim>\<open>url.QueryUnescape\<close>: \<open>%XY\<close> with two hexadecimal digits is the byte \<open>XY\<close>, \<open>+\<close> is
  a space, and a \<open>%\<close> not followed by two hexadecimal digits is an error (\<open>None\<close>).
\<close>

definition ishex :: "char \<Rightarrow> bool" where
  "ishex c = (let n = (of_char c :: nat) in
                (48 \<le> n \<and> n \<le> 57) \<or> (97 \<le> n \<and> n \<le> 102) \<or> (65 \<le> n \<and> n \<le> 70))"

definition unhex :: "char \<Rightarrow> nat" where
  "unhex c = (let n = (of_char c :: nat) in
                if 48 \<le> n \<and> n \<le> 57 then n - 48
                else if 97 \<le> n \<and> n \<le> 102 then n - 97 + 10
                else if 65 \<le> n \<and> n \<le> 70 then n - 65 + 10
                else 0)"

fun QueryUnescape :: "string \<Rightarrow> string option" where
  "QueryUnescape [] = Some []"
| "QueryUnescape (c # cs) =
     (if c = CHR ''%'' then
        (case cs of
           a # b # rest \<Rightarrow>
             if ishex a \<and> ishex b
             then map_option ((#) (char_of (unhex a * 16 + unhex b))) (QueryUnescape rest)
             else None
         | _ \<Rightarrow> None)
      else if c = CHR ''+'' then map_option ((#) CHR '' '') (QueryUnescape cs)
      else map_option ((#) c) (QueryUnescape cs))"

text \<open>\<^verbatim>\<open>strings.Cut(s, sep)\<close>: the text before the first separator and the text after it.\<close>

definition Cut :: "string \<Rightarrow> char \<Rightarrow> string \<times> string" where
  "Cut s sep = (takeWhile (\<lambda>c. c \<noteq> sep) s, drop 1 (dropWhile (\<lambda>c. c \<noteq> sep) s))"

lemma Cut_shorter: "length (snd (Cut (c # cs) sep)) < Suc (length cs)"
proof -
  have "length (dropWhile (\<lambda>x. x \<noteq> sep) (c # cs)) \<le> Suc (length cs)"
    using length_dropWhile_le [of "\<lambda>x. x \<noteq> sep" "c # cs"] by simp
  then show ?thesis
    unfolding Cut_def snd_conv length_drop by arith
qed

text \<open>
  The loop of \<^verbatim>\<open>url.ParseQuery\<close>: the query is cut at each \<open>&\<close>; a setting that is empty,
  contains a semicolon, or whose key or value cannot be unescaped is skipped (the error
  that \<^verbatim>\<open>ParseQuery\<close> records for it is discarded by \<^verbatim>\<open>p, _ := url.ParseQuery(ph)\<close>); every
  other setting is cut at its first \<open>=\<close> into key and value. \<open>query_pairs\<close> lists the
  unescaped settings in the order of the query. (Go releases before 1.17 also cut at
  semicolons; the statements below are in terms of \<open>query_pairs\<close> and hold for either
  reading.)
\<close>

function query_pairs :: "string \<Rightarrow> (string \<times> string) list" where
  "query_pairs [] = []"
| "query_pairs (c # cs) =
     (let key = fst (Cut (c # cs) CHR ''&''); rest = snd (Cut (c # cs) CHR ''&'') in
      if CHR '';'' \<in> set key then query_pairs rest
      else if key = [] then query_pairs rest
      else
        (case QueryUnescape (fst (Cut key CHR ''='')) of
           None \<Rightarrow> query_pairs rest
         | Some k \<Rightarrow>
             (case QueryUnescape (snd (Cut key CHR ''='')) of
                None \<Rightarrow> query_pairs rest
              | Some v \<Rightarrow> (k, v) # query_pairs rest)))"
  by pat_completeness auto
termination
  by (relation "measure length") (auto simp: Cut_shorter)


text \<open>
  \<^verbatim>\<open>url.Values\<close> is \<^verbatim>\<open>map[string][]string\<close>; \<^verbatim>\<open>m[key] = append(m[key], value)\<close> adds a
  value after those already stored for the key. The map is kept as a list of its
  entries, one per key.
\<close>

type_synonym Values = "(string \<times> string list) list"

fun values_add :: "Values \<Rightarrow> string \<Rightarrow> string \<Rightarrow> Values" where
  "values_add [] k v = [(k, [v])]"
| "values_add ((k', vs) # m) k v =
     (if k' = k then (k', vs @ [v]) # m else (k', vs) # values_add m k v)"

definition ParseQuery :: "string \<Rightarrow> Values" where
  "ParseQuery query = foldl (\<lambda>m (k, v). values_add m k v) [] (query_pairs query)"

text \<open>
  A Go \<^verbatim>\<open>map[string]string\<close> is kept as the list of its entries, one per key, so that it
  can be iterated; \<open>map_of\<close> reads it and \<^verbatim>\<open>m[k] = v\<close> is \<open>AList.update k v m\<close>.
  \<^verbatim>\<open>info.Properties\<close> may be \<^verbatim>\<open>nil\<close> (\<open>None\<close>): it is \<^verbatim>\<open>nil\<close> when \<^verbatim>\<open>metadata.yaml\<close> has no
  \<^verbatim>\<open>properties\<close> entry, and assigning into it then panics. \<open>assign_first\<close> is the loop
  \<^verbatim>\<open>for pkey, pval := range p { info.Properties[pkey] = pval[0] }\<close> and \<open>header_properties\<close>
  the loop over the \<^verbatim>\<open>X-LXD-properties\<close> header values around it (lines 368 to 376 of
  \<^verbatim>\<open>src/lxd/images.go\<close>).
\<close>

type_synonym properties = "(string \<times> string) list option"

fun assign_first :: "properties \<Rightarrow> Values \<Rightarrow> error + properties" where
  "assign_first props [] = Inr props"
| "assign_first props ((pkey, pval) # p) =
     (case pval of
        [] \<Rightarrow> Inl IndexOutOfRange
      | v # vs \<Rightarrow>
          (case props of
             None \<Rightarrow> Inl NilMapAssignment
           | Some m \<Rightarrow> assign_first (Some (AList.update pkey v m)) p))"

fun header_properties :: "properties \<Rightarrow> string list \<Rightarrow> error + properties" where
  "header_properties props [] = Inr props"
| "header_properties props (ph # propHeaders) =
     (case assign_first props (ParseQuery ph) of
        Inl e \<Rightarrow> Inl e
      | Inr props' \<Rightarrow> header_properties props' propHeaders)"

text \<open>
  The merge as C4 words it: every setting of every header value is assigned in order on
  top of the metadata properties, so the last value seen for a key wins.
\<close>

definition last_value_wins :: "(string \<rightharpoonup> string) \<Rightarrow> string list \<Rightarrow> (string \<rightharpoonup> string)" where
  "last_value_wins m propHeaders =
     foldl (\<lambda>acc (k, v). acc(k \<mapsto> v)) m (concat (map query_pairs propHeaders))"

text \<open>The first value stored for each key of a \<^verbatim>\<open>url.Values\<close>.\<close>

definition first_values :: "Values \<Rightarrow> (string \<rightharpoonup> string)" where
  "first_values V = map_of (map (\<lambda>(k, vs). (k, hd vs)) V)"

subsection \<open>The merge keeps the first value of a key within one header value\<close>

definition wf_values :: "Values \<Rightarrow> bool" where
  "wf_values V \<longleftrightarrow> distinct (map fst V) \<and> (\<forall>(k, vs) \<in> set V. vs \<noteq> [])"

lemma values_add_keys: "set (map fst (values_add V k v)) = insert k (set (map fst V))"
  by (induction V k v rule: values_add.induct) auto

lemma values_add_wf: "wf_values V \<Longrightarrow> wf_values (values_add V k v)"
proof (induction V k v rule: values_add.induct)
  case (1 k v)
  show ?case by (simp add: wf_values_def)
next
  case (2 k' vs m k v)
  then have rest: "wf_values m" and new: "k' \<notin> set (map fst m)" and "vs \<noteq> []"
    by (auto simp: wf_values_def)
  with 2 show ?case
    using values_add_keys [of m k v]
    by (auto simp: wf_values_def)
qed

lemma values_add_first:
  "wf_values V \<Longrightarrow>
   first_values (values_add V k v) =
     (if k \<in> fst ` set V then first_values V else (first_values V)(k \<mapsto> v))"
proof (induction V k v rule: values_add.induct)
  case (1 k v)
  show ?case by (simp add: first_values_def)
next
  case (2 k' vs m k v)
  then have rest: "wf_values m" and ne: "vs \<noteq> []"
    by (auto simp: wf_values_def)
  show ?case
  proof (cases "k' = k")
    case True
    with ne show ?thesis by (auto simp: first_values_def)
  next
    case False
    with 2 rest show ?thesis
      by (auto simp: first_values_def fun_upd_twist)
  qed
qed

lemma first_values_dom: "dom (first_values V) = fst ` set V"
  by (simp add: first_values_def dom_map_of_conv_image_fst image_image case_prod_beta)

lemma fold_values_add:
  "wf_values V \<Longrightarrow>
   wf_values (foldl (\<lambda>m (k, v). values_add m k v) V ps)
   \<and> first_values (foldl (\<lambda>m (k, v). values_add m k v) V ps) = map_of ps ++ first_values V"
proof (induction ps arbitrary: V)
  case Nil
  then show ?case by simp
next
  case (Cons p ps)
  obtain k v where p: "p = (k, v)" by (cases p)
  have wf: "wf_values (values_add V k v)" using Cons.prems by (rule values_add_wf)
  have eq: "map_of ps ++ first_values (values_add V k v) = map_of (p # ps) ++ first_values V"
    using Cons.prems first_values_dom [of V]
    by (auto simp: p values_add_first fun_eq_iff map_add_def split: option.splits)
  have step: "foldl (\<lambda>m (k, v). values_add m k v) V (p # ps) =
      foldl (\<lambda>m (k, v). values_add m k v) (values_add V k v) ps"
    by (simp add: p)
  from Cons.IH [OF wf]
  have a: "wf_values (foldl (\<lambda>m (k, v). values_add m k v) (values_add V k v) ps)"
    and b: "first_values (foldl (\<lambda>m (k, v). values_add m k v) (values_add V k v) ps) =
            map_of ps ++ first_values (values_add V k v)"
    by blast+
  show ?case
    unfolding step using a b [unfolded eq] by blast
qed

lemma ParseQuery_first: "wf_values (ParseQuery ph) \<and> first_values (ParseQuery ph) = map_of (query_pairs ph)"
  using fold_values_add [of "[]" "query_pairs ph"]
  by (simp add: ParseQuery_def wf_values_def first_values_def)

lemma assign_first_wf:
  "wf_values V \<Longrightarrow>
   \<exists>m'. assign_first (Some m) V = Inr (Some m') \<and> map_of m' = map_of m ++ first_values V"
proof (induction V arbitrary: m)
  case Nil
  show ?case by (simp add: first_values_def)
next
  case (Cons a V)
  obtain k vs where a: "a = (k, vs)" by (cases a)
  from Cons.prems a obtain v vs' where vs: "vs = v # vs'"
    by (cases vs) (auto simp: wf_values_def)
  have wf: "wf_values V" and fresh: "k \<notin> fst ` set V"
    using Cons.prems a by (auto simp: wf_values_def)
  have eq: "(map_of m)(k \<mapsto> v) ++ first_values V = map_of m ++ first_values ((k, v # vs') # V)"
    using fresh first_values_dom [of V]
    by (auto simp: first_values_def fun_eq_iff map_add_def split: option.splits)
  have step: "assign_first (Some m) ((k, v # vs') # V) = assign_first (Some (AList.update k v m)) V"
    by simp
  from Cons.IH [OF wf, of "AList.update k v m"]
  obtain m' where run: "assign_first (Some (AList.update k v m)) V = Inr (Some m')"
    and m': "map_of m' = map_of (AList.update k v m) ++ first_values V"
    by blast
  have "map_of m' = map_of m ++ first_values ((k, v # vs') # V)"
    unfolding m' update_conv' eq ..
  with run show ?case
    unfolding a vs step by blast
qed

lemma last_header_with_key:
  "foldl (\<lambda>acc ph. acc ++ map_of (f ph)) m hs k =
     (case filter (\<lambda>ph. k \<in> fst ` set (f ph)) (rev hs) of
        [] \<Rightarrow> m k
      | ph # others \<Rightarrow> map_of (f ph) k)"
proof (induction hs rule: rev_induct)
  case Nil
  show ?case by simp
next
  case (snoc h hs)
  show ?case
  proof (cases "k \<in> fst ` set (f h)")
    case True
    then obtain v where "map_of (f h) k = Some v"
      by (metis domD dom_map_of_conv_image_fst)
    with True show ?thesis by (simp add: map_add_def)
  next
    case False
    then have "map_of (f h) k = None"
      by (simp add: map_of_eq_None_iff)
    with False snoc.IH show ?thesis by (simp add: map_add_def)
  qed
qed

text \<open>
  C4 as stated fails for a key repeated within one header value: for the single header
  value \<open>os=a&os=b\<close> the code stores \<open>os = a\<close>, the first value, where last-value-wins
  gives \<open>os = b\<close>.
\<close>

theorem header_properties_counterexample:
  "header_properties (Some []) [''os=a&os=b''] = Inr (Some [(''os'', ''a'')])
   \<and> last_value_wins Map.empty [''os=a&os=b''] ''os'' = Some ''b''"
  by (simp add: ParseQuery_def last_value_wins_def Cut_def)

text \<open>
  C4, amended. When \<^verbatim>\<open>metadata.yaml\<close> gives a properties map \<open>m\<close>, the merge succeeds and
  the merged properties are \<open>m\<close> overridden by the header values in order. For a key \<open>k\<close>
  the result is taken from the last header value that has a setting for \<open>k\<close>, and within
  that header value from its first setting for \<open>k\<close>; a key that no header value sets
  keeps its metadata value.
\<close>

theorem header_properties_merge:
  "\<exists>m'. header_properties (Some m) propHeaders = Inr (Some m')
      \<and> map_of m' = foldl (\<lambda>acc ph. acc ++ map_of (query_pairs ph)) (map_of m) propHeaders
      \<and> map_of m' k =
          (case filter (\<lambda>ph. k \<in> fst ` set (query_pairs ph)) (rev propHeaders) of
             [] \<Rightarrow> map_of m k
           | ph # others \<Rightarrow> map_of (query_pairs ph) k)"
proof -
  have run: "\<exists>m'. header_properties (Some m) propHeaders = Inr (Some m')
      \<and> map_of m' = foldl (\<lambda>acc ph. acc ++ map_of (query_pairs ph)) (map_of m) propHeaders"
  proof (induction propHeaders arbitrary: m)
    case Nil
    show ?case by simp
  next
    case (Cons ph phs)
    obtain m1 where one: "assign_first (Some m) (ParseQuery ph) = Inr (Some m1)"
      and m1: "map_of m1 = map_of m ++ map_of (query_pairs ph)"
      using ParseQuery_first [of ph] assign_first_wf [of "ParseQuery ph" m] by auto
    from Cons.IH [of m1] obtain m' where rest: "header_properties (Some m1) phs = Inr (Some m')"
      and m': "map_of m' = foldl (\<lambda>acc ph. acc ++ map_of (query_pairs ph)) (map_of m1) phs"
      by blast
    show ?case
      using one rest m' by (simp add: m1)
  qed
  then obtain m' where a: "header_properties (Some m) propHeaders = Inr (Some m')"
    and b: "map_of m' = foldl (\<lambda>acc ph. acc ++ map_of (query_pairs ph)) (map_of m) propHeaders"
    by blast
  have "map_of m' k =
          (case filter (\<lambda>ph. k \<in> fst ` set (query_pairs ph)) (rev propHeaders) of
             [] \<Rightarrow> map_of m k
           | ph # others \<Rightarrow> map_of (query_pairs ph) k)"
    unfolding b by (rule last_header_with_key)
  with a b show ?thesis by blast
qed

theorem header_properties_merge_witness:
  "header_properties (Some [(''os'', ''alpine''), (''arch'', ''x86'')])
       [''os=a&os=b'', ''release=1&os=c'']
     = Inr (Some [(''os'', ''c''), (''arch'', ''x86''), (''release'', ''1'')])"
  using header_properties_merge [of "[(''os'', ''alpine''), (''arch'', ''x86'')]"
      "[''os=a&os=b'', ''release=1&os=c'']" "''os''"]
  by (simp add: ParseQuery_def Cut_def)

text \<open>
  With a \<^verbatim>\<open>nil\<close> properties map (no \<^verbatim>\<open>properties\<close> entry in \<^verbatim>\<open>metadata.yaml\<close>) the first
  header setting makes the assignment panic.
\<close>

lemma header_properties_nil_map:
  "header_properties None [''os=a''] = Inl NilMapAssignment"
  by (simp add: ParseQuery_def Cut_def)

section \<open>Metadata store and the read paths of \<^verbatim>\<open>src/lxd/images.go\<close>\<close>

text \<open>
  Modelled from the spec: the table declarations are not among the source files. The spec
  gives the schema \<^verbatim>\<open>images(id pk, fingerprint unique, filename, size, public, architecture,
  creation_date, expiry_date, upload_date)\<close>, \<^verbatim>\<open>images_properties(image_id, type, key,
  value)\<close> and \<^verbatim>\<open>images_aliases(id pk, name unique, image_id, description)\<close>. A table is
  the list of its rows in insertion order.
\<close>

record image_row =
  row_id :: nat
  row_fingerprint :: string
  row_filename :: string
  row_size :: int
  row_public :: int
  row_architecture :: int
  row_creation_date :: int
  row_expiry_date :: int
  row_upload_date :: int

record property_row =
  prop_image_id :: nat
  prop_type :: int
  prop_key :: string
  prop_value :: string

record alias_row =
  alias_id :: nat
  alias_name :: string
  alias_image_id :: nat
  alias_description :: string

record database =
  images :: "image_row list"
  images_properties :: "property_row list"
  images_aliases :: "alias_row list"

text \<open>\<^verbatim>\<open>shared.ImageAlias\<close> and \<^verbatim>\<open>shared.ImageInfo\<close>, the records sent to the client.\<close>

record ImageAlias =
  Name :: string
  Description :: string

record ImageInfo =
  Aliases :: "ImageAlias list"
  Architecture :: int
  Fingerprint :: string
  Filename :: string
  Properties :: properties
  Public :: int
  Size :: int
  CreationDate :: int
  ExpiryDate :: int
  UploadDate :: int

text \<open>
  The error responses of the handlers: \<^verbatim>\<open>SmartError(err)\<close> and \<^verbatim>\<open>InternalError(err)\<close>. A
  handler returns \<open>Inl\<close> of one of them or \<open>Inr\<close> of the payload of its success response.
\<close>

datatype failure = SmartError error | InternalError error

text \<open>
  Modelled from the spec: \<^verbatim>\<open>dbImageGet\<close> is not among the source files. The spec describes
  it as \<^verbatim>\<open>getImage(fingerprint, publicOnly)\<close>, returning the row or NotFound and applying
  \<^verbatim>\<open>public=1\<close> filtering when the caller is untrusted.
\<close>

definition dbImageGet :: "database \<Rightarrow> string \<Rightarrow> bool \<Rightarrow> error + image_row" where
  "dbImageGet d fingerprint public =
     (case filter (\<lambda>r. row_fingerprint r = fingerprint \<and> (if public then row_public r = 1 else True))
             (images d) of
        [] \<Rightarrow> Inl NoSuchObject
      | r # rs \<Rightarrow> Inr r)"

text \<open>
  \<^verbatim>\<open>doImageGet\<close>. The queries run on the in-memory tables and cannot fail, so the two
  branches that forward an error of \<^verbatim>\<open>dbQueryScan\<close> have no counterpart. The property loop
  \<^verbatim>\<open>properties[key] = value\<close> lets a later row override an earlier one. In the alias loop
  the source reads \<^verbatim>\<open>name = r[0].(string)\<close> and \<^verbatim>\<open>desc = r[0].(string)\<close>: both from the first
  column of \<^verbatim>\<open>SELECT name, description\<close>.
\<close>

definition alias_results :: "database \<Rightarrow> nat \<Rightarrow> (string \<times> string) list" where
  "alias_results d image_id =
     map (\<lambda>a. (alias_name a, alias_description a))
       (filter (\<lambda>a. alias_image_id a = image_id) (images_aliases d))"

definition doImageGet :: "database \<Rightarrow> string \<Rightarrow> bool \<Rightarrow> failure + ImageInfo" where
  "doImageGet d fingerprint public =
     (case dbImageGet d fingerprint public of
        Inl err \<Rightarrow> Inl (SmartError err)
      | Inr imgInfo \<Rightarrow>
          (let results = filter (\<lambda>p. prop_image_id p = row_id imgInfo) (images_properties d);
               props = foldl (\<lambda>m p. AList.update (prop_key p) (prop_value p) m) [] results;
               aliases = map (\<lambda>r. \<lparr>Name = fst r, Description = fst r\<rparr>)
                           (alias_results d (row_id imgInfo))
           in Inr \<lparr>Aliases = aliases,
                   Architecture = row_architecture imgInfo,
                   Fingerprint = row_fingerprint imgInfo,
                   Filename = row_filename imgInfo,
                   Properties = Some props,
                   Public = row_public imgInfo,
                   Size = row_size imgInfo,
                   CreationDate = row_creation_date imgInfo,
                   ExpiryDate = row_expiry_date imgInfo,
                   UploadDate = row_upload_date imgInfo\<rparr>))"

text \<open>
  \<^verbatim>\<open>doImagesGet\<close>: the fingerprints come from \<^verbatim>\<open>SELECT fingerprint FROM images\<close>, with
  \<^verbatim>\<open>WHERE public=1\<close> when \<^verbatim>\<open>public\<close> is set. Without recursion the result is the list of
  URLs, with recursion the list of the records that \<^verbatim>\<open>doImageGet\<close> returns (an image for
  which it fails is skipped). \<^verbatim>\<open>shared.APIVersion\<close> is declared outside the source files;
  nothing below depends on its value.
\<close>

definition APIVersion :: string where
  "APIVersion = ''1.0''"

datatype listing = Urls "string list" | Records "ImageInfo list"

definition listed_fingerprints :: "database \<Rightarrow> bool \<Rightarrow> string list" where
  "listed_fingerprints d public =
     map row_fingerprint
       (if public then filter (\<lambda>r. row_public r = 1) (images d) else images d)"

fun recursion_results :: "database \<Rightarrow> bool \<Rightarrow> string list \<Rightarrow> ImageInfo list" where
  "recursion_results d public [] = []"
| "recursion_results d public (name # names) =
     (case doImageGet d name public of
        Inl response \<Rightarrow> recursion_results d public names
      | Inr img \<Rightarrow> img # recursion_results d public names)"

definition doImagesGet :: "database \<Rightarrow> bool \<Rightarrow> bool \<Rightarrow> listing" where
  "doImagesGet d recursion public =
     (let results = listed_fingerprints d public in
      if \<not> recursion
      then Urls (map (\<lambda>name. ''/'' @ APIVersion @ ''/images/'' @ name) results)
      else Records (recursion_results d public results))"

text \<open>\<^verbatim>\<open>imagesGet\<close>: \<^verbatim>\<open>public := !d.isTrustedClient(r)\<close>.\<close>

definition imagesGet :: "database \<Rightarrow> bool \<Rightarrow> bool \<Rightarrow> listing" where
  "imagesGet d trusted recursion = doImagesGet d recursion (\<not> trusted)"

subsection \<open>Secrets held by operations\<close>

text \<open>
  The operation registry is declared outside the source files. \<^verbatim>\<open>imageValidSecret\<close> reads
  two things of an operation: \<^verbatim>\<open>op.Resources\<close>, a map from a resource kind to a list of
  URLs that may be \<^verbatim>\<open>nil\<close>, and the string that \<^verbatim>\<open>op.MetadataAsMap()\<close> followed by
  \<^verbatim>\<open>GetString("secret")\<close> yields (\<open>None\<close> when either call returns an error). The registry
  is the list of the operations it holds.
\<close>

record operation =
  op_Resources :: "(string \<rightharpoonup> string list) option"
  op_secret :: "string option"

text \<open>
  \<^verbatim>\<open>strings.Replace(s, "/", " ", -1)\<close> and \<^verbatim>\<open>fmt.Sscanf(toScan, " %s images %s", ...)\<close>. A
  space of the format stands for one or more spaces of the input, \<^verbatim>\<open>%s\<close> for the next run
  of non-space characters, which must not be empty; \<open>None\<close> is any outcome other than two
  scanned values without error. Only the space character is treated as white space.
\<close>

definition slashes_to_spaces :: "string \<Rightarrow> string" where
  "slashes_to_spaces s = map (\<lambda>c. if c = CHR ''/'' then CHR '' '' else c) s"

definition skip_spaces :: "string \<Rightarrow> string" where
  "skip_spaces s = dropWhile (\<lambda>c. c = CHR '' '') s"

definition Sscanf_images :: "string \<Rightarrow> (string \<times> string) option" where
  "Sscanf_images toScan =
     (if take 1 toScan \<noteq> '' '' then None
      else
        let s1 = skip_spaces toScan;
            imgVersion = takeWhile (\<lambda>c. c \<noteq> CHR '' '') s1;
            s2 = dropWhile (\<lambda>c. c \<noteq> CHR '' '') s1
        in
        if imgVersion = [] \<or> s2 = [] then None
        else
          let s3 = skip_spaces s2 in
          if take 6 s3 \<noteq> ''images'' then None
          else
            let s4 = drop 6 s3 in
            if take 1 s4 \<noteq> '' '' then None
            else
              let imgFingerprint = takeWhile (\<lambda>c. c \<noteq> CHR '' '') (skip_spaces s4) in
              if imgFingerprint = [] then None else Some (imgVersion, imgFingerprint))"

text \<open>The inner loop of \<^verbatim>\<open>imageValidSecret\<close> that sets \<^verbatim>\<open>found\<close>.\<close>

definition names_fingerprint :: "string \<Rightarrow> string \<Rightarrow> bool" where
  "names_fingerprint fingerprint img =
     (case Sscanf_images (slashes_to_spaces img) of
        None \<Rightarrow> False
      | Some (imgVersion, imgFingerprint) \<Rightarrow> imgFingerprint = fingerprint)"

definition op_grants :: "string \<Rightarrow> string \<Rightarrow> operation \<Rightarrow> bool" where
  "op_grants fingerprint secret operation =
     (case op_Resources operation of
        None \<Rightarrow> False
      | Some resources \<Rightarrow>
          (case resources ''images'' of
             None \<Rightarrow> False
           | Some opImages \<Rightarrow>
               if \<not> list_ex (names_fingerprint fingerprint) opImages then False
               else
                 (case op_secret operation of
                    None \<Rightarrow> False
                  | Some opSecret \<Rightarrow> opSecret = secret)))"

fun imageValidSecret :: "operation list \<Rightarrow> string \<Rightarrow> string \<Rightarrow> bool" where
  "imageValidSecret [] fingerprint secret = False"
| "imageValidSecret (operation # operations) fingerprint secret =
     (if op_grants fingerprint secret operation then True
      else imageValidSecret operations fingerprint secret)"

text \<open>
  \<^verbatim>\<open>imageGet\<close>: the request gives whether the client is trusted, the fingerprint of the URL
  and the \<^verbatim>\<open>secret\<close> form value (empty when absent).
\<close>

record request =
  trusted :: bool
  url_fingerprint :: string
  form_secret :: string

definition imageGet :: "database \<Rightarrow> operation list \<Rightarrow> request \<Rightarrow> failure + ImageInfo" where
  "imageGet d operations r =
     (let public0 = \<not> trusted r;
          public = (if public0 \<and> imageValidSecret operations (url_fingerprint r) (form_secret r)
                    then False else public0)
      in doImageGet d (url_fingerprint r) public)"

section \<open>Daemon state, files and external commands\<close>

text \<open>
  What can stand at a path below the images directory: a regular file with its bytes, a
  directory, a btrfs subvolume, or a symbolic link with its target. The file system is
  the list of the paths that exist, each once, with what stands there.
\<close>

datatype node = File "byte list" | Dir | Subvol | Symlink string

type_synonym filesystem = "(string \<times> node) list"

definition PathExists :: "filesystem \<Rightarrow> string \<Rightarrow> bool" where
  "PathExists fs path = (map_of fs path \<noteq> None)"

definition fs_delete :: "string \<Rightarrow> filesystem \<Rightarrow> filesystem" where
  "fs_delete path fs = filter (\<lambda>(p, n). p \<noteq> path) fs"

definition fs_put :: "string \<Rightarrow> node \<Rightarrow> filesystem \<Rightarrow> filesystem" where
  "fs_put path n fs = (path, n) # fs_delete path fs"

text \<open>The bytes that \<^verbatim>\<open>os.Open\<close> and \<^verbatim>\<open>Read\<close> see at a path: those of a regular file.\<close>

definition file_contents :: "filesystem \<Rightarrow> (string \<rightharpoonup> byte list)" where
  "file_contents fs path = (case map_of fs path of Some (File bytes) \<Rightarrow> Some bytes | other \<Rightarrow> None)"

text \<open>\<^verbatim>\<open>os.Remove\<close> and \<^verbatim>\<open>os.Rename\<close> fail on a path that does not exist.\<close>

definition os_Remove :: "string \<Rightarrow> filesystem \<Rightarrow> error option \<times> filesystem" where
  "os_Remove path fs =
     (if PathExists fs path then (None, fs_delete path fs) else (Some PathError, fs))"

definition os_Rename :: "string \<Rightarrow> string \<Rightarrow> filesystem \<Rightarrow> error option \<times> filesystem" where
  "os_Rename old new fs =
     (case map_of fs old of
        None \<Rightarrow> (Some PathError, fs)
      | Some n \<Rightarrow> (None, fs_put new n (fs_delete old fs)))"

text \<open>\<^verbatim>\<open>filepath.Join(dir, name)\<close> for clean arguments, and the paths below a directory.\<close>

definition Join :: "string \<Rightarrow> string \<Rightarrow> string" where
  "Join dir name = dir @ ''/'' @ name"

definition below :: "string \<Rightarrow> string \<Rightarrow> bool" where
  "below dir path = (take (length dir + 1) path = dir @ ''/'')"

text \<open>\<^verbatim>\<open>shared.ReadDir(dir)\<close>: the names of the entries directly in \<open>dir\<close>.\<close>

definition ReadDir :: "filesystem \<Rightarrow> string \<Rightarrow> string list" where
  "ReadDir fs dir =
     filter (\<lambda>name. CHR ''/'' \<notin> set name)
       (map (\<lambda>(p, n). drop (length dir + 1) p) (filter (\<lambda>(p, n). below dir p) fs))"

text \<open>\<^verbatim>\<open>os.RemoveAll(dir)\<close>.\<close>

definition os_RemoveAll :: "string \<Rightarrow> filesystem \<Rightarrow> filesystem" where
  "os_RemoveAll dir fs = filter (\<lambda>(p, n). p \<noteq> dir \<and> \<not> below dir p) fs"

text \<open>
  The external commands and system calls whose outcome is not determined by the model.
  Each one that is run is appended to the log of the daemon state.
\<close>

datatype action =
    MkdirAll string
  | TempDir string string
  | TempFile string string
  | BtrfsMakeSubvol string
  | BtrfsDeleteSubvol string
  | Tar "string list"
  | LVMCreateLV string string
  | LVMRemoveLV string string
  | MkfsExt4 string
  | Mount string string
  | Umount string

text \<open>\<^verbatim>\<open>imageMetadata\<close>, the parsed \<^verbatim>\<open>metadata.yaml\<close> (templates are not read by the model).\<close>

record imageMetadata =
  meta_Architecture :: string
  meta_CreationDate :: int
  meta_ExpiryDate :: int
  meta_Properties :: properties

text \<open>The decoded JSON body of an image-from-container request.\<close>

record imageFromContainerPostReq =
  req_Filename :: string
  req_Public :: bool
  req_Source :: "(string \<times> string) list"
  req_Properties :: properties

text \<open>
  The environment of the daemon: which external actions succeed, the names the system
  picks for temporary files and directories (by prefix and by how many names with that
  prefix were picked before), the SHA-256 digest in hexadecimal, the device
  path of a new logical volume, and the results of the decoders that the handlers call
  (the JSON decoder on the request body, the multipart reader with the form name, file
  name and bytes of each part, \<^verbatim>\<open>tar -O ... metadata.yaml\<close> with the given arguments
  followed by the YAML decoder, \<^verbatim>\<open>shared.ArchitectureId\<close>, and the export of a container
  as an image by \<^verbatim>\<open>imgPostContInfo\<close>, whose collaborators are outside the source files), and the current time.
\<close>

record world =
  succeeds :: "action \<Rightarrow> bool"
  temp_name :: "string \<Rightarrow> nat \<Rightarrow> string"
  sha256_hex :: "byte list \<Rightarrow> string"
  lv_device :: "string \<Rightarrow> string \<Rightarrow> string"
  decode_json :: "byte list \<Rightarrow> imageFromContainerPostReq option"
  multipart_parts :: "byte list \<Rightarrow> string \<Rightarrow> (string \<times> string \<times> byte list) list"
  read_metadata :: "string list \<Rightarrow> error + imageMetadata"
  ArchitectureId :: "string \<Rightarrow> int"
  container_image :: "imageFromContainerPostReq \<Rightarrow> error + (ImageInfo \<times> byte list)"
  now :: int

text \<open>
  The daemon: its database, the file system, \<^verbatim>\<open>d.BackingFs\<close>, the server configuration
  (\<open>Inl\<close> when reading it fails), and the log of the external actions run so far.
\<close>

record Daemon =
  db :: database
  fs :: filesystem
  BackingFs :: string
  server_config :: "error + (string \<times> string) list"
  log :: "action list"

text \<open>Running an external action: it is logged, and the environment decides its success.\<close>

definition run :: "world \<Rightarrow> action \<Rightarrow> Daemon \<Rightarrow> bool \<times> Daemon" where
  "run w a d = (succeeds w a, d\<lparr>log := log d @ [a]\<rparr>)"

text \<open>
  Modelled from the spec: \<^verbatim>\<open>shared.VarPath\<close> and \<^verbatim>\<open>getServerConfigValue\<close> are not among the
  source files. The spec places the content files and sidecars in \<^verbatim>\<open><var>/images/\<close>; the
  default \<^verbatim>\<open>/var/lib/lxd\<close> stands for \<^verbatim>\<open><var>\<close>. \<^verbatim>\<open>getServerConfigValue(d, key)\<close> returns
  the value, whether it is set, and an error.
\<close>

definition VarPath :: "string \<Rightarrow> string \<Rightarrow> string" where
  "VarPath dir name = ''/var/lib/lxd/'' @ dir @ (if name = [] then [] else ''/'' @ name)"

definition getServerConfigValue :: "Daemon \<Rightarrow> string \<Rightarrow> error + string option" where
  "getServerConfigValue d key =
     (case server_config d of Inl err \<Rightarrow> Inl err | Inr cfg \<Rightarrow> Inr (map_of cfg key))"

section \<open>Image ingestion: the pipeline of \<^verbatim>\<open>src/lxd/images.go\<close>\<close>

text \<open>
  Modelled from the spec: \<^verbatim>\<open>btrfsMakeSubvol\<close> and \<^verbatim>\<open>btrfsDeleteSubvol\<close> are not among the
  source files. The spec has the btrfs backend create the subvolume \<^verbatim>\<open>F.btrfs\<close> and remove
  it on deletion; both run the external \<^verbatim>\<open>btrfs\<close> tool.
\<close>

definition btrfsMakeSubvol :: "world \<Rightarrow> string \<Rightarrow> Daemon \<Rightarrow> error option \<times> Daemon" where
  "btrfsMakeSubvol w subvol d =
     (let (ok, d1) = run w (BtrfsMakeSubvol subvol) d in
      if ok then (None, d1\<lparr>fs := fs_put subvol Subvol (fs d1)\<rparr>)
      else (Some (Failure ''btrfs subvolume create''), d1))"

definition btrfsDeleteSubvol :: "world \<Rightarrow> string \<Rightarrow> Daemon \<Rightarrow> Daemon" where
  "btrfsDeleteSubvol w subvol d =
     (let (ok, d1) = run w (BtrfsDeleteSubvol subvol) d in
      if ok \<and> map_of (fs d1) subvol = Some Subvol then d1\<lparr>fs := fs_delete subvol (fs d1)\<rparr>
      else d1)"

text \<open>
  \<^verbatim>\<open>untar\<close> and \<^verbatim>\<open>untarImage\<close>. The unpacked tree inside the destination is not tracked;
  the \<^verbatim>\<open>tar\<close> run is logged with its arguments.
\<close>

definition untar :: "world \<Rightarrow> Daemon \<Rightarrow> string \<Rightarrow> string \<Rightarrow> error option \<times> Daemon" where
  "untar w d tarball dest =
     (case detectCompression (file_contents (fs d)) tarball of
        Inl err \<Rightarrow> (Some err, d)
      | Inr (extractArgs, ext) \<Rightarrow>
          (let args = [''-C'', dest, ''--numeric-owner''] @ extractArgs @ [tarball];
               (ok, d1) = run w (Tar args) d
           in (if ok then None else Some (Failure ''tar''), d1)))"

definition untarImage :: "world \<Rightarrow> Daemon \<Rightarrow> string \<Rightarrow> string \<Rightarrow> error option \<times> Daemon" where
  "untarImage w d imagefname destpath =
     (case untar w d imagefname destpath of
        (Some err, d1) \<Rightarrow> (Some err, d1)
      | (None, d1) \<Rightarrow>
          if PathExists (fs d1) (imagefname @ ''.rootfs'')
          then
            (let rootfsPath = destpath @ ''/rootfs'';
                 (ok, d2) = run w (MkdirAll rootfsPath) d1
             in if \<not> ok then (Some (Failure ''Error creating rootfs directory''), d2)
                else untar w d2 (imagefname @ ''.rootfs'') rootfsPath)
          else (None, d1))"

definition getImageMetadata :: "world \<Rightarrow> Daemon \<Rightarrow> string \<Rightarrow> error + imageMetadata" where
  "getImageMetadata w d fname =
     (case detectCompression (file_contents (fs d)) fname of
        Inl err \<Rightarrow> Inl err
      | Inr (compressionArgs, ext) \<Rightarrow>
          read_metadata w ([''-O''] @ compressionArgs @ [fname, ''metadata.yaml'']))"

text \<open>
  The upload request as \<^verbatim>\<open>getImgPostInfo\<close> reads it: the body, the integer that
  \<^verbatim>\<open>strconv.Atoi\<close> yields for \<^verbatim>\<open>X-LXD-public\<close>, the other headers, and the media type and
  boundary of \<^verbatim>\<open>Content-Type\<close> (\<^verbatim>\<open>application/octet-stream\<close> when it cannot be parsed).
\<close>

record post_request =
  post_body :: "byte list"
  X_LXD_public :: int
  X_LXD_filename :: string
  X_LXD_fingerprint :: string
  X_LXD_properties :: "string list"
  media_type :: string
  boundary :: string

text \<open>The zero value of \<^verbatim>\<open>shared.ImageInfo\<close>.\<close>

definition zero_info :: ImageInfo where
  "zero_info = \<lparr>Aliases = [], Architecture = 0, Fingerprint = [], Filename = [],
                 Properties = None, Public = 0, Size = 0, CreationDate = 0, ExpiryDate = 0,
                 UploadDate = 0\<rparr>"

text \<open>
  The \<^verbatim>\<open>else\<close> branch of \<^verbatim>\<open>getImgPostInfo\<close>: the body is one tarball. The body is copied to
  the temporary file and hashed, the \<^verbatim>\<open>X-LXD-fingerprint\<close> header is checked, the file is
  renamed to the fingerprint and its metadata is read.
\<close>

definition single_upload ::
  "world \<Rightarrow> Daemon \<Rightarrow> post_request \<Rightarrow> string \<Rightarrow> string \<Rightarrow> ImageInfo
    \<Rightarrow> (error + ImageInfo \<times> imageMetadata) \<times> Daemon" where
  "single_upload w d r builddir imageTarf info =
     (let d1 = d\<lparr>fs := fs_put imageTarf (File (post_body r)) (fs d)\<rparr>;
          info1 = info\<lparr>Size := int (length (post_body r)),
                       Filename := X_LXD_filename r,
                       Fingerprint := sha256_hex w (post_body r)\<rparr>;
          expectedFingerprint = X_LXD_fingerprint r
      in
      if expectedFingerprint \<noteq> [] \<and> Fingerprint info1 \<noteq> expectedFingerprint
      then (Inl FingerprintMismatch, d1)
      else
        (let imgfname = Join builddir (Fingerprint info1) in
         case os_Rename imageTarf imgfname (fs d1) of
           (Some err, fs1) \<Rightarrow> (Inl err, d1)
         | (None, fs1) \<Rightarrow>
             (let d2 = d1\<lparr>fs := fs1\<rparr> in
              case getImageMetadata w d2 imgfname of
                Inl err \<Rightarrow> (Inl err, d2)
              | Inr imageMeta \<Rightarrow> (Inr (info1, imageMeta), d2))))"

text \<open>
  The \<^verbatim>\<open>multipart/form-data\<close> branch: a part named \<^verbatim>\<open>metadata\<close>, then a part named
  \<^verbatim>\<open>rootfs\<close>; both go through the same hasher.
\<close>

definition multipart_upload ::
  "world \<Rightarrow> Daemon \<Rightarrow> post_request \<Rightarrow> string \<Rightarrow> string \<Rightarrow> ImageInfo
    \<Rightarrow> (error + ImageInfo \<times> imageMetadata) \<times> Daemon" where
  "multipart_upload w d r builddir imageTarf info =
     (let (ok, d1) = run w (TempFile builddir ''lxd_tar_'') d in
      if \<not> ok then (Inl (Failure ''TempFile''), d1)
      else
        (let rootfsTarf = Join builddir (temp_name w ''lxd_tar_'' 1);
             d2 = d1\<lparr>fs := fs_put rootfsTarf (File []) (fs d1)\<rparr>
         in
         case multipart_parts w (post_body r) (boundary r) of
           [] \<Rightarrow> (Inl (Failure ''NextPart''), d2)
         | (form1, file1, data1) # rest \<Rightarrow>
             if form1 \<noteq> ''metadata'' then (Inl InvalidMultipart, d2)
             else
               (let d3 = d2\<lparr>fs := fs_put imageTarf (File data1) (fs d2)\<rparr>;
                    info1 = info\<lparr>Size := Size info + int (length data1)\<rparr>
                in
                case rest of
                  [] \<Rightarrow> (Inl (Failure ''NextPart''), d3)
                | (form2, file2, data2) # rest2 \<Rightarrow>
                    if form2 \<noteq> ''rootfs'' then (Inl InvalidMultipart, d3)
                    else
                      (let d4 = d3\<lparr>fs := fs_put rootfsTarf (File data2) (fs d3)\<rparr>;
                           info2 = info1\<lparr>Size := Size info1 + int (length data2),
                                         Filename := file2,
                                         Fingerprint := sha256_hex w (data1 @ data2)\<rparr>;
                           expectedFingerprint = X_LXD_fingerprint r
                       in
                       if expectedFingerprint \<noteq> [] \<and> Fingerprint info2 \<noteq> expectedFingerprint
                       then (Inl FingerprintMismatch, d4)
                       else
                         (let imgfname = Join builddir (Fingerprint info2);
                              rootfsfname = Join builddir (Fingerprint info2 @ ''.rootfs'')
                          in
                          case os_Rename imageTarf imgfname (fs d4) of
                            (Some err, fs1) \<Rightarrow> (Inl err, d4)
                          | (None, fs1) \<Rightarrow>
                              (case os_Rename rootfsTarf rootfsfname fs1 of
                                 (Some err, fs2) \<Rightarrow> (Inl err, d4\<lparr>fs := fs1\<rparr>)
                               | (None, fs2) \<Rightarrow>
                                   (let d5 = d4\<lparr>fs := fs2\<rparr> in
                                    case getImageMetadata w d5 imgfname of
                                      Inl err \<Rightarrow> (Inl err, d5)
                                    | Inr imageMeta \<Rightarrow> (Inr (info2, imageMeta), d5))))))))"

text \<open>
  \<^verbatim>\<open>imgPostContInfo\<close> builds the image from a container; its collaborators are outside the
  source files, so the environment gives its outcome: an error, or the image record and
  the bytes of the file it leaves in the build directory under the fingerprint.
\<close>

definition imgPostContInfo ::
  "world \<Rightarrow> Daemon \<Rightarrow> imageFromContainerPostReq \<Rightarrow> string \<Rightarrow> (error + ImageInfo) \<times> Daemon" where
  "imgPostContInfo w d req builddir =
     (case container_image w req of
        Inl err \<Rightarrow> (Inl err, d)
      | Inr (info, bytes) \<Rightarrow>
          (Inr info, d\<lparr>fs := fs_put (Join builddir (Fingerprint info)) (File bytes) (fs d)\<rparr>))"

text \<open>
  \<^verbatim>\<open>getImgPostInfo\<close>. The body is first stored in a temporary file, which the deferred
  \<^verbatim>\<open>os.Remove\<close> deletes on every return. The last step is the property merge of lines 368
  to 376.
\<close>

definition getImgPostInfo ::
  "world \<Rightarrow> Daemon \<Rightarrow> post_request \<Rightarrow> string \<Rightarrow> (error + ImageInfo) \<times> Daemon" where
  "getImgPostInfo w d r builddir =
     (let (ok, d0) = run w (TempFile builddir ''lxd_post_'') d in
      if \<not> ok then (Inl (Failure ''TempFile''), d0)
      else
        (let post = Join builddir (temp_name w ''lxd_post_'' 0);
             d1 = d0\<lparr>fs := fs_put post (File (post_body r)) (fs d0)\<rparr>;
             (res, d9) =
               (case decode_json w (post_body r) of
                  Some req \<Rightarrow> imgPostContInfo w d1 req builddir
                | None \<Rightarrow>
                    (let info = zero_info\<lparr>Public := X_LXD_public r\<rparr>;
                         (ok2, d2) = run w (TempFile builddir ''lxd_tar_'') d1
                     in
                     if \<not> ok2 then (Inl (Failure ''TempFile''), d2)
                     else
                       (let imageTarf = Join builddir (temp_name w ''lxd_tar_'' 0);
                            d3 = d2\<lparr>fs := fs_put imageTarf (File []) (fs d2)\<rparr>;
                            (up, d4) =
                              (if media_type r = ''multipart/form-data''
                               then multipart_upload w d3 r builddir imageTarf info
                               else single_upload w d3 r builddir imageTarf info)
                        in
                        case up of
                          Inl err \<Rightarrow> (Inl err, d4)
                        | Inr (info1, imageMeta) \<Rightarrow>
                            (case header_properties (meta_Properties imageMeta)
                                    (X_LXD_properties r) of
                               Inl err \<Rightarrow> (Inl err, d4)
                             | Inr props \<Rightarrow>
                                 (Inr (info1\<lparr>Architecture :=
                                                ArchitectureId w (meta_Architecture imageMeta),
                                              CreationDate := meta_CreationDate imageMeta,
                                              ExpiryDate := meta_ExpiryDate imageMeta,
                                              Properties := props\<rparr>), d4)))))
         in (res, d9\<lparr>fs := snd (os_Remove post (fs d9))\<rparr>)))"

text \<open>
  \<^verbatim>\<open>createImageLV\<close>: a logical volume named by the fingerprint, a symbolic link to its
  device beside the image file, a file system, a temporary mount point, the unpacking,
  and the unmount. \<^verbatim>\<open>os.Symlink\<close> fails when the link exists already.
\<close>

definition createImageLV ::
  "world \<Rightarrow> Daemon \<Rightarrow> string \<Rightarrow> string \<Rightarrow> string \<Rightarrow> error option \<times> Daemon" where
  "createImageLV w d builddir fingerprint vgname =
     (let imagefname = Join builddir fingerprint;
          (ok, d1) = run w (LVMCreateLV fingerprint vgname) d
      in
      if \<not> ok then (Some (Failure ''Error Creating LVM LV for new image''), d1)
      else
        (let lvpath = lv_device w fingerprint vgname in
         if PathExists (fs d1) (imagefname @ ''.lv'') then (Some PathError, d1)
         else
           (let d2 = d1\<lparr>fs := fs_put (imagefname @ ''.lv'') (Symlink lvpath) (fs d1)\<rparr>;
                (ok3, d3) = run w (MkfsExt4 lvpath) d2
            in
            if \<not> ok3 then (Some (Failure ''Error making filesystem on image LV''), d3)
            else
              (let (ok4, d4) = run w (TempDir builddir ''tmp_lv_mnt'') d3 in
               if \<not> ok4 then (Some (Failure ''TempDir''), d4)
               else
                 (let tempLVMountPoint = Join builddir (temp_name w ''tmp_lv_mnt'' 0);
                      d5 = d4\<lparr>fs := fs_put tempLVMountPoint Dir (fs d4)\<rparr>;
                      (ok6, d6) = run w (Mount lvpath tempLVMountPoint) d5
                  in
                  if \<not> ok6 then (Some (Failure ''Error mounting image LV''), d6)
                  else
                    (let (untarErr, d7) = untarImage w d6 imagefname tempLVMountPoint;
                         (ok8, d8) = run w (Umount tempLVMountPoint) d7
                     in
                     if \<not> ok8
                     then (if untarErr = None then (Some (Failure ''umount''), d8)
                           else (Some (Failure ''Error unmounting during cleanup''), d8))
                     else (untarErr, d8)))))))"

text \<open>\<^verbatim>\<open>buildOtherFs\<close>: "We've got an image with the directory, create .btrfs or .lv".\<close>

definition buildOtherFs :: "world \<Rightarrow> Daemon \<Rightarrow> string \<Rightarrow> string \<Rightarrow> error option \<times> Daemon" where
  "buildOtherFs w d builddir fp =
     (case getServerConfigValue d ''core.lvm_vg_name'' of
        Inl err \<Rightarrow> (Some (Failure ''Error checking server config''), d)
      | Inr (Some vgname) \<Rightarrow> createImageLV w d builddir fp vgname
      | Inr None \<Rightarrow>
          if BackingFs d = ''btrfs''
          then
            (let imagefname = Join builddir fp;
                 subvol = imagefname @ ''.btrfs''
             in case btrfsMakeSubvol w subvol d of
                  (Some err, d1) \<Rightarrow> (Some err, d1)
                | (None, d1) \<Rightarrow> untarImage w d1 imagefname subvol)
          else (None, d))"

text \<open>\<^verbatim>\<open>pullOutImagefiles\<close>: "Copy imagefile and btrfs file out of the tmpdir".\<close>

definition pullOutImagefiles :: "Daemon \<Rightarrow> string \<Rightarrow> string \<Rightarrow> error option \<times> Daemon" where
  "pullOutImagefiles d builddir fingerprint =
     (let imagefname = Join builddir fingerprint;
          imagerootfsfname = Join builddir (fingerprint @ ''.rootfs'');
          finalName = VarPath ''images'' fingerprint;
          finalrootfsName = VarPath ''images'' (fingerprint @ ''.rootfs'');
          (err1, fs1) = (if PathExists (fs d) imagerootfsfname
                         then os_Rename imagerootfsfname finalrootfsName (fs d)
                         else (None, fs d))
      in
      if err1 \<noteq> None then (err1, d\<lparr>fs := fs1\<rparr>)
      else
        (case os_Rename imagefname finalName fs1 of
           (Some err, fs2) \<Rightarrow> (Some err, d\<lparr>fs := fs2\<rparr>)
         | (None, fs2) \<Rightarrow>
             (let lvsymlink = imagefname @ ''.lv'' in
              if PathExists fs2 lvsymlink
              then (let (err3, fs3) = os_Rename lvsymlink (VarPath ''images'' (fingerprint @ ''.lv'')) fs2
                    in (err3, d\<lparr>fs := fs3\<rparr>))
              else if BackingFs d = ''btrfs''
              then (let (err4, fs4) = os_Rename (imagefname @ ''.btrfs'')
                                        (VarPath ''images'' (fingerprint @ ''.btrfs'')) fs2
                    in (err4, d\<lparr>fs := fs4\<rparr>))
              else (None, d\<lparr>fs := fs2\<rparr>))))"

text \<open>
  \<^verbatim>\<open>dbInsertImage\<close>: the image row and one property row per entry of the map, in one
  transaction. The unique index on \<^verbatim>\<open>fingerprint\<close> (from the schema of the spec) refuses a
  second row with the same fingerprint, and the transaction is rolled back. The new id is
  one more than the largest id in the table; \<^verbatim>\<open>strftime("%s")\<close> is the current time.
\<close>

definition dbInsertImage ::
  "world \<Rightarrow> database \<Rightarrow> string \<Rightarrow> string \<Rightarrow> int \<Rightarrow> int \<Rightarrow> int \<Rightarrow> int \<Rightarrow> int \<Rightarrow> properties
    \<Rightarrow> error + database" where
  "dbInsertImage w d fp fname sz public arch creationDate expiryDate props =
     (if fp \<in> set (map row_fingerprint (images d)) then Inl UniqueConstraint
      else
        (let new_id = Suc (foldr max (map row_id (images d)) 0);
             row = \<lparr>row_id = new_id, row_fingerprint = fp, row_filename = fname,
                    row_size = sz, row_public = public, row_architecture = arch,
                    row_creation_date = creationDate, row_expiry_date = expiryDate,
                    row_upload_date = now w\<rparr>;
             entries = (case props of None \<Rightarrow> [] | Some m \<Rightarrow> m)
         in Inr (d\<lparr>images := images d @ [row],
                   images_properties := images_properties d @
                     map (\<lambda>(k, v). \<lparr>prop_image_id = new_id, prop_type = 0, prop_key = k,
                                     prop_value = v\<rparr>) entries\<rparr>)))"

text \<open>
  \<^verbatim>\<open>buildImageFromInfo\<close>: the sidecar is built first, then the rows are inserted, then the
  files are moved out of the build directory. The success payload is the fingerprint and
  the size.
\<close>

definition buildImageFromInfo ::
  "world \<Rightarrow> Daemon \<Rightarrow> ImageInfo \<Rightarrow> string \<Rightarrow> (error + string \<times> int) \<times> Daemon" where
  "buildImageFromInfo w d info builddir =
     (case buildOtherFs w d builddir (Fingerprint info) of
        (Some err, d1) \<Rightarrow> (Inl err, d1)
      | (None, d1) \<Rightarrow>
          (case dbInsertImage w (db d1) (Fingerprint info) (Filename info) (Size info)
                  (Public info) (Architecture info) (CreationDate info) (ExpiryDate info)
                  (Properties info) of
             Inl err \<Rightarrow> (Inl err, d1)
           | Inr db1 \<Rightarrow>
               (case pullOutImagefiles (d1\<lparr>db := db1\<rparr>) builddir (Fingerprint info) of
                  (Some err, d2) \<Rightarrow> (Inl err, d2)
                | (None, d2) \<Rightarrow> (Inr (Fingerprint info, Size info), d2))))"

text \<open>
  \<^verbatim>\<open>removeImgWorkdir\<close>, the deferred cleanup of \<^verbatim>\<open>imagesPost\<close>: the logical volume behind a
  \<^verbatim>\<open>.lv\<close> link left in the build directory is removed, on btrfs a subvolume delete is run
  on every entry of the build directory, and the build directory is removed.
\<close>

definition Base :: "string \<Rightarrow> string" where
  "Base path = rev (takeWhile (\<lambda>c. c \<noteq> CHR ''/'') (rev path))"

definition removeImgWorkdir :: "world \<Rightarrow> Daemon \<Rightarrow> string \<Rightarrow> Daemon" where
  "removeImgWorkdir w d builddir =
     (let vgname = (case getServerConfigValue d ''core.lvm_vg_name'' of
                      Inr (Some v) \<Rightarrow> v | other \<Rightarrow> []);
          matches = filter (\<lambda>name. drop (length name - 3) name = ''.lv'') (ReadDir (fs d) builddir);
          d1 = (case matches of
                  [] \<Rightarrow> d
                | name # names \<Rightarrow>
                    (case map_of (fs d) (Join builddir name) of
                       Some (Symlink lvpath) \<Rightarrow> snd (run w (LVMRemoveLV vgname (Base lvpath)) d)
                     | other \<Rightarrow> d));
          d2 = (if BackingFs d1 = ''btrfs''
                then foldl (\<lambda>d' fname. btrfsDeleteSubvol w (Join builddir fname) d') d1
                       (ReadDir (fs d1) builddir)
                else d1)
      in d2\<lparr>fs := os_RemoveAll builddir (fs d2)\<rparr>)"

text \<open>\<^verbatim>\<open>imagesPost\<close> of \<^verbatim>\<open>src/lxd/images.go\<close>.\<close>

definition imagesPost ::
  "world \<Rightarrow> Daemon \<Rightarrow> post_request \<Rightarrow> (failure + string \<times> int) \<times> Daemon" where
  "imagesPost w d r =
     (let dirname = VarPath ''images'' [];
          (ok, d1) = run w (MkdirAll dirname) d
      in
      if \<not> ok then (Inl (InternalError (Failure ''MkdirAll'')), d1)
      else
        (let (ok2, d2) = run w (TempDir dirname ''lxd_build_'') d1 in
         if \<not> ok2 then (Inl (InternalError (Failure ''TempDir'')), d2)
         else
           (let builddir = Join dirname (temp_name w ''lxd_build_'' 0);
                d3 = d2\<lparr>fs := fs_put builddir Dir (fs d2)\<rparr>;
                (res, d9) =
                  (case getImgPostInfo w d3 r builddir of
                     (Inl err, d4) \<Rightarrow> (Inl (SmartError err), d4)
                   | (Inr info, d4) \<Rightarrow>
                       (case buildImageFromInfo w d4 info builddir of
                          (Inl err, d5) \<Rightarrow> (Inl (SmartError err), d5)
                        | (Inr metadata, d5) \<Rightarrow> (Inr metadata, d5)))
            in (res, removeImgWorkdir w d9 builddir))))"

section \<open>Image deletion and export\<close>

text \<open>
  The statements that \<^verbatim>\<open>imageDelete\<close> hands to \<^verbatim>\<open>tx.Exec\<close>. A statement that the SQL
  grammar rejects changes nothing and yields an error.
\<close>

datatype statement =
    DeleteAliasesOfImage nat       \<comment> \<open>\<^verbatim>\<open>DELETE FROM images_aliases WHERE image_id=?\<close>\<close>
  | DeletePropertiesOfImage nat    \<comment> \<open>\<^verbatim>\<open>DELETE FROM images_properties WHERE image_id=?\<close>\<close>
  | DeleteImage nat                \<comment> \<open>\<^verbatim>\<open>DELETE FROM images WHERE id=?\<close>\<close>
  | Unparsable string

definition tx_Exec :: "statement \<Rightarrow> database \<Rightarrow> error option \<times> database" where
  "tx_Exec st d =
     (case st of
        DeleteAliasesOfImage i \<Rightarrow>
          (None, d\<lparr>images_aliases := filter (\<lambda>a. alias_image_id a \<noteq> i) (images_aliases d)\<rparr>)
      | DeletePropertiesOfImage i \<Rightarrow>
          (None, d\<lparr>images_properties :=
                      filter (\<lambda>p. prop_image_id p \<noteq> i) (images_properties d)\<rparr>)
      | DeleteImage i \<Rightarrow> (None, d\<lparr>images := filter (\<lambda>r. row_id r \<noteq> i) (images d)\<rparr>)
      | Unparsable text \<Rightarrow> (Some SqlSyntaxError, d))"

text \<open>
  The three statements of \<^verbatim>\<open>imageDelete\<close> in their transaction; every result is discarded
  (\<^verbatim>\<open>_, _ = tx.Exec(...)\<close>). The source text of the second statement is
  \<^verbatim>\<open>DELETE FROM images_properties WHERE image_id?\<close>: there is no comparison operator between
  the column and the parameter, so the statement cannot be parsed.
\<close>

definition delete_rows :: "database \<Rightarrow> nat \<Rightarrow> database" where
  "delete_rows d image_id =
     (let d1 = snd (tx_Exec (DeleteAliasesOfImage image_id) d);
          d2 = snd (tx_Exec (Unparsable ''DELETE FROM images_properties WHERE image_id?'') d1);
          d3 = snd (tx_Exec (DeleteImage image_id) d2)
      in d3)"

text \<open>The storage part of \<^verbatim>\<open>imageDelete\<close>: the logical volume and its link, or the subvolume.\<close>

definition delete_sidecar ::
  "world \<Rightarrow> Daemon \<Rightarrow> string option \<Rightarrow> string \<Rightarrow> string \<Rightarrow> error option \<times> Daemon" where
  "delete_sidecar w d vg fingerprint fname =
     (case vg of
        Some vgname \<Rightarrow>
          (let (ok, d1) = run w (LVMRemoveLV vgname fingerprint) d in
           if \<not> ok then (Some (Failure ''Failed to remove deleted image LV''), d1)
           else
             (case os_Remove (fname @ ''.lv'') (fs d1) of
                (Some err, fs1) \<Rightarrow>
                  (Some (Failure ''Failed to remove symlink to deleted image LV''), d1)
              | (None, fs1) \<Rightarrow> (None, d1\<lparr>fs := fs1\<rparr>)))
      | None \<Rightarrow>
          if BackingFs d = ''btrfs'' then (None, btrfsDeleteSubvol w (fname @ ''.btrfs'') d)
          else (None, d))"

text \<open>
  \<^verbatim>\<open>imageDelete\<close> of \<^verbatim>\<open>src/lxd/images.go\<close>; \<open>Inr ()\<close> is \<^verbatim>\<open>EmptySyncResponse\<close>. An error of
  \<^verbatim>\<open>os.Remove\<close> on the content files is only logged.
\<close>

definition imageDelete :: "world \<Rightarrow> Daemon \<Rightarrow> string \<Rightarrow> (failure + unit) \<times> Daemon" where
  "imageDelete w d fingerprint =
     (case dbImageGet (db d) fingerprint False of
        Inl err \<Rightarrow> (Inl (SmartError err), d)
      | Inr imgInfo \<Rightarrow>
          (let fname = VarPath ''images'' (row_fingerprint imgInfo);
               d1 = d\<lparr>fs := snd (os_Remove fname (fs d))\<rparr>;
               fmetaname = VarPath ''images'' (row_fingerprint imgInfo @ ''.rootfs'');
               d2 = (if PathExists (fs d1) fmetaname
                     then d1\<lparr>fs := snd (os_Remove fmetaname (fs d1))\<rparr> else d1)
           in
           case getServerConfigValue d2 ''core.lvm_vg_name'' of
             Inl err \<Rightarrow> (Inl (InternalError (Failure ''Error checking server config'')), d2)
           | Inr vg \<Rightarrow>
               (case delete_sidecar w d2 vg (row_fingerprint imgInfo) fname of
                  (Some err, d3) \<Rightarrow> (Inl (InternalError err), d3)
                | (None, d3) \<Rightarrow> (Inr (), d3\<lparr>db := delete_rows (db d3) (row_id imgInfo)\<rparr>))))"

text \<open>\<^verbatim>\<open>imageExport\<close> of \<^verbatim>\<open>src/lxd/images.go\<close>; the payload is the list handed to \<^verbatim>\<open>FileResponse\<close>.\<close>

record fileResponseEntry =
  entry_identifier :: string
  entry_path :: string
  entry_filename :: string

definition imageExport ::
  "Daemon \<Rightarrow> operation list \<Rightarrow> request \<Rightarrow> failure + fileResponseEntry list" where
  "imageExport d operations r =
     (let fingerprint = url_fingerprint r;
          public0 = \<not> trusted r;
          public = (if public0 \<and> imageValidSecret operations fingerprint (form_secret r)
                    then False else public0)
      in
      case dbImageGet (db d) fingerprint public of
        Inl err \<Rightarrow> Inl (SmartError err)
      | Inr imgInfo \<Rightarrow>
          (let imagePath = VarPath ''images'' (row_fingerprint imgInfo);
               rootfsPath = imagePath @ ''.rootfs'';
               filename =
                 (if row_filename imgInfo = []
                  then fingerprint @
                         (case detectCompression (file_contents (fs d)) imagePath of
                            Inl err \<Rightarrow> [] | Inr (args, ext) \<Rightarrow> ext)
                  else row_filename imgInfo)
           in
           if PathExists (fs d) rootfsPath
           then Inr [\<lparr>entry_identifier = ''metadata'', entry_path = imagePath,
                      entry_filename = ''meta-'' @ filename\<rparr>,
                     \<lparr>entry_identifier = ''rootfs'', entry_path = rootfsPath,
                      entry_filename = filename\<rparr>]
           else Inr [\<lparr>entry_identifier = filename, entry_path = imagePath,
                      entry_filename = filename\<rparr>]))"

section \<open>Visibility of images and the alias records\<close>

text \<open>An image record in which every alias entry has its name as its description.\<close>

definition names_only :: "ImageInfo \<Rightarrow> bool" where
  "names_only info = list_all (\<lambda>a. Description a = Name a) (Aliases info)"

text \<open>
  The part of the store that belongs to public images: the image rows with \<^verbatim>\<open>public=1\<close>
  and the property and alias rows that refer to one of them.
\<close>

definition public_view :: "database \<Rightarrow> database" where
  "public_view d =
     (let pub = filter (\<lambda>r. row_public r = 1) (images d) in
      d\<lparr>images := pub,
        images_properties :=
          filter (\<lambda>p. prop_image_id p \<in> set (map row_id pub)) (images_properties d),
        images_aliases :=
          filter (\<lambda>a. alias_image_id a \<in> set (map row_id pub)) (images_aliases d)\<rparr>)"

text \<open>
  A store with a public image \<open>aa11\<close> and a private image \<open>bb22\<close>, an operation that
  holds a secret for \<open>bb22\<close>, and a daemon on btrfs that holds the store with the content
  files and subvolumes of both images.
\<close>

definition store_demo :: database where
  "store_demo =
     \<lparr>images =
        [\<lparr>row_id = 1, row_fingerprint = ''aa11'', row_filename = ''alpine.tar.gz'', row_size = 100,
          row_public = 1, row_architecture = 2, row_creation_date = 10, row_expiry_date = 20,
          row_upload_date = 30\<rparr>,
         \<lparr>row_id = 2, row_fingerprint = ''bb22'', row_filename = [], row_size = 200,
          row_public = 0, row_architecture = 2, row_creation_date = 11, row_expiry_date = 21,
          row_upload_date = 31\<rparr>],
      images_properties =
        [\<lparr>prop_image_id = 1, prop_type = 0, prop_key = ''os'', prop_value = ''alpine''\<rparr>,
         \<lparr>prop_image_id = 2, prop_type = 0, prop_key = ''os'', prop_value = ''internal''\<rparr>],
      images_aliases =
        [\<lparr>alias_id = 1, alias_name = ''alpine'', alias_image_id = 1,
          alias_description = ''Alpine Linux''\<rparr>,
         \<lparr>alias_id = 2, alias_name = ''build'', alias_image_id = 2,
          alias_description = ''Internal build''\<rparr>]\<rparr>"

definition operations_demo :: "operation list" where
  "operations_demo =
     [\<lparr>op_Resources = Some (Map.empty(''images'' \<mapsto> [''/1.0/images/bb22''])),
       op_secret = Some ''s3cret''\<rparr>]"

definition gzip_bytes :: "byte list" where
  "gzip_bytes = [0x1f, 0x8b, 0x08, 0x00]"

definition daemon_demo :: Daemon where
  "daemon_demo =
     \<lparr>db = store_demo,
      fs = [(''/var/lib/lxd/images/aa11'', File gzip_bytes),
            (''/var/lib/lxd/images/aa11.btrfs'', Subvol),
            (''/var/lib/lxd/images/bb22'', File gzip_bytes),
            (''/var/lib/lxd/images/bb22.btrfs'', Subvol)],
      BackingFs = ''btrfs'',
      server_config = Inr [],
      log = []\<rparr>"

text \<open>
  An environment in which every external action succeeds and the digest of every upload
  is \<open>aa11\<close>, and an upload of a gzip tarball without an \<^verbatim>\<open>X-LXD-fingerprint\<close> header.
\<close>

definition world_demo :: world where
  "world_demo =
     \<lparr>succeeds = (\<lambda>a. True),
      temp_name = (\<lambda>prefix n. prefix @ (if n = 0 then ''a'' else ''b'')),
      sha256_hex = (\<lambda>bytes. ''aa11''),
      lv_device = (\<lambda>fingerprint vgname. ''/dev/'' @ vgname @ ''/'' @ fingerprint),
      decode_json = (\<lambda>bytes. None),
      multipart_parts = (\<lambda>bytes b. []),
      read_metadata = (\<lambda>args. Inr \<lparr>meta_Architecture = ''x86_64'', meta_CreationDate = 10,
                                      meta_ExpiryDate = 20,
                                      meta_Properties = Some [(''os'', ''alpine'')]\<rparr>),
      ArchitectureId = (\<lambda>a. 2),
      container_image = (\<lambda>req. Inl (Failure ''no container'')),
      now = 40\<rparr>"

definition upload_demo :: post_request where
  "upload_demo =
     \<lparr>post_body = gzip_bytes, X_LXD_public = 1, X_LXD_filename = ''alpine.tar.gz'',
      X_LXD_fingerprint = [], X_LXD_properties = [], media_type = ''application/octet-stream'',
      boundary = []\<rparr>"




subsection \<open>Lemmas on the public part of the store\<close>

lemma dbImageGet_row:
  assumes "dbImageGet d fingerprint public = Inr r"
  shows "r \<in> set (images d)" and "row_fingerprint r = fingerprint"
    and "public \<Longrightarrow> row_public r = 1"
proof -
  let ?P = "\<lambda>r. row_fingerprint r = fingerprint \<and> (if public then row_public r = 1 else True)"
  from assms obtain rs where "filter ?P (images d) = r # rs"
    by (auto simp: dbImageGet_def split: list.splits)
  then have "r \<in> set (filter ?P (images d))" by simp
  then show "r \<in> set (images d)" and "row_fingerprint r = fingerprint"
    and "public \<Longrightarrow> row_public r = 1"
    by auto
qed

lemma filter_within:
  "(\<And>x. P x \<Longrightarrow> Q x) \<Longrightarrow> filter P (filter Q xs) = filter P xs"
  by (induction xs) auto

lemma public_view_images:
  "images (public_view d) = filter (\<lambda>r. row_public r = 1) (images d)"
  by (simp add: public_view_def Let_def)

lemma public_view_properties:
  "images_properties (public_view d) =
     filter (\<lambda>p. prop_image_id p \<in> set (map row_id (filter (\<lambda>r. row_public r = 1) (images d))))
       (images_properties d)"
  by (simp add: public_view_def Let_def)

lemma public_view_aliases:
  "images_aliases (public_view d) =
     filter (\<lambda>a. alias_image_id a \<in> set (map row_id (filter (\<lambda>r. row_public r = 1) (images d))))
       (images_aliases d)"
  by (simp add: public_view_def Let_def)

lemma dbImageGet_public_view:
  "dbImageGet (public_view d) fingerprint True = dbImageGet d fingerprint True"
proof -
  have "filter (\<lambda>r. row_fingerprint r = fingerprint \<and> (if True then row_public r = 1 else True))
          (filter (\<lambda>r. row_public r = 1) (images d)) =
        filter (\<lambda>r. row_fingerprint r = fingerprint \<and> (if True then row_public r = 1 else True))
          (images d)"
    by (rule filter_within) simp
  then show ?thesis
    unfolding dbImageGet_def public_view_images by (simp only:)
qed

lemma filter_id_within:
  "i \<in> S \<Longrightarrow> filter (\<lambda>p. f p = i) (filter (\<lambda>p. f p \<in> S) xs) = filter (\<lambda>p. f p = i) xs"
  by (rule filter_within) simp

lemma doImageGet_public_view:
  "doImageGet (public_view d) fingerprint True = doImageGet d fingerprint True"
proof (cases "dbImageGet d fingerprint True")
  case (Inl e)
  then show ?thesis by (simp add: doImageGet_def dbImageGet_public_view)
next
  case (Inr r)
  from dbImageGet_row [OF Inr] have "r \<in> set (images d)" and "row_public r = 1" by simp_all
  then have mem: "row_id r \<in> set (map row_id (filter (\<lambda>r. row_public r = 1) (images d)))"
    by auto
  have props: "filter (\<lambda>p. prop_image_id p = row_id r) (images_properties (public_view d)) =
      filter (\<lambda>p. prop_image_id p = row_id r) (images_properties d)"
    unfolding public_view_properties by (rule filter_id_within [OF mem])
  have "filter (\<lambda>a. alias_image_id a = row_id r) (images_aliases (public_view d)) =
      filter (\<lambda>a. alias_image_id a = row_id r) (images_aliases d)"
    unfolding public_view_aliases by (rule filter_id_within [OF mem])
  then have als: "alias_results (public_view d) (row_id r) = alias_results d (row_id r)"
    by (simp only: alias_results_def)
  show ?thesis
    using Inr by (simp add: doImageGet_def dbImageGet_public_view props als)
qed

lemma recursion_results_public_view:
  "recursion_results (public_view d) True names = recursion_results d True names"
  by (induction names) (simp_all add: doImageGet_public_view split: sum.splits)

lemma listed_public_view:
  "listed_fingerprints (public_view d) True = listed_fingerprints d True"
  by (simp add: listed_fingerprints_def public_view_images)

lemma doImagesGet_public_view:
  "doImagesGet (public_view d) recursion True = doImagesGet d recursion True"
  by (simp add: doImagesGet_def Let_def listed_public_view recursion_results_public_view)

lemma imageValidSecret_iff:
  "imageValidSecret operations fingerprint secret =
     list_ex (\<lambda>operation. \<exists>resources opImages.
                op_Resources operation = Some resources
              \<and> resources ''images'' = Some opImages
              \<and> list_ex (names_fingerprint fingerprint) opImages
              \<and> op_secret operation = Some secret) operations"
  by (induction operations)
     (auto simp: op_grants_def split: option.splits)

lemma doImageGet_names_only:
  "case doImageGet d fingerprint public of Inl e \<Rightarrow> True | Inr info \<Rightarrow> names_only info"
  by (simp add: doImageGet_def names_only_def Let_def list_all_iff split: sum.splits)

lemma recursion_results_names_only:
  "list_all names_only (recursion_results d public names)"
proof (induction names)
  case Nil
  show ?case by simp
next
  case (Cons name names)
  with doImageGet_names_only [of d name public] show ?case
    by (simp split: sum.splits)
qed

lemma alias_entries_from_names:
  "map (\<lambda>r. \<lparr>Name = fst r, Description = fst r\<rparr>) xs =
   map (\<lambda>n. \<lparr>Name = n, Description = n\<rparr>) (map fst xs)"
  by simp

lemma alias_names_ignore_descriptions:
  "map fst (alias_results (d\<lparr>images_aliases :=
       map (\<lambda>a. a\<lparr>alias_description := f a\<rparr>) (images_aliases d)\<rparr>) i) =
   map fst (alias_results d i)"
  by (simp add: alias_results_def filter_map comp_def)

lemma doImageGet_ignores_descriptions:
  "doImageGet (d\<lparr>images_aliases := map (\<lambda>a. a\<lparr>alias_description := f a\<rparr>) (images_aliases d)\<rparr>)
      fingerprint public = doImageGet d fingerprint public"
  unfolding doImageGet_def dbImageGet_def alias_entries_from_names alias_names_ignore_descriptions
  by (simp add: Let_def split: list.splits)

text \<open>
  The scanner recognises the resource URL of an image: for a version and a fingerprint
  without spaces and slashes, \<^verbatim>\<open>/<version>/images/<fingerprint>\<close> names exactly that
  fingerprint.
\<close>

lemma takeWhile_stop:
  "\<forall>x \<in> set xs. P x \<Longrightarrow> \<not> P y \<Longrightarrow> takeWhile P (xs @ y # ys) = xs"
  by (induction xs) auto

lemma dropWhile_stop:
  "\<forall>x \<in> set xs. P x \<Longrightarrow> \<not> P y \<Longrightarrow> dropWhile P (xs @ y # ys) = y # ys"
  by (induction xs) auto

lemma takeWhile_all: "\<forall>x \<in> set xs. P x \<Longrightarrow> takeWhile P xs = xs"
  by (induction xs) auto

lemma slashes_to_spaces_plain:
  "CHR ''/'' \<notin> set s \<Longrightarrow> slashes_to_spaces s = s"
  by (induction s) (auto simp: slashes_to_spaces_def)

lemma Sscanf_images_url:
  assumes "v \<noteq> []" "CHR '' '' \<notin> set v" "CHR ''/'' \<notin> set v"
    and "f \<noteq> []" "CHR '' '' \<notin> set f" "CHR ''/'' \<notin> set f"
  shows "Sscanf_images (slashes_to_spaces (''/'' @ v @ ''/images/'' @ f)) = Some (v, f)"
proof -
  define t where "t = ''images '' @ f"
  have plain: "slashes_to_spaces (''/'' @ v @ ''/images/'' @ f) = CHR '' '' # v @ CHR '' '' # t"
    using assms(3,6) slashes_to_spaces_plain [of v] slashes_to_spaces_plain [of f]
    by (simp add: slashes_to_spaces_def t_def)
  obtain c cs where v: "v = c # cs" using assms(1) by (cases v) auto
  obtain c' cs' where f: "f = c' # cs'" using assms(4) by (cases f) auto
  have c: "c \<noteq> CHR '' ''" and c': "c' \<noteq> CHR '' ''" using assms(2,5) v f by auto
  have s1: "skip_spaces (CHR '' '' # v @ CHR '' '' # t) = v @ CHR '' '' # t"
    using c by (simp add: skip_spaces_def v)
  have tv: "takeWhile (\<lambda>c. c \<noteq> CHR '' '') (v @ CHR '' '' # t) = v"
    by (rule takeWhile_stop) (use assms(2) in auto)
  have dv: "dropWhile (\<lambda>c. c \<noteq> CHR '' '') (v @ CHR '' '' # t) = CHR '' '' # t"
    by (rule dropWhile_stop) (use assms(2) in auto)
  have s3: "skip_spaces (CHR '' '' # t) = t"
    by (simp add: skip_spaces_def t_def)
  have t6: "take 6 t = ''images''" and d6: "drop 6 t = CHR '' '' # f"
    by (simp_all add: t_def)
  have s5: "skip_spaces (CHR '' '' # f) = f"
    using c' by (simp add: skip_spaces_def f)
  have tf: "takeWhile (\<lambda>c. c \<noteq> CHR '' '') f = f"
    by (rule takeWhile_all) (use assms(5) in auto)
  show ?thesis
    unfolding plain Sscanf_images_def
    using assms(1,4)
    by (simp add: s1 tv dv s3 t6 d6 s5 tf Let_def)
qed

lemma names_fingerprint_url:
  assumes "v \<noteq> []" "CHR '' '' \<notin> set v" "CHR ''/'' \<notin> set v"
    and "f \<noteq> []" "CHR '' '' \<notin> set f" "CHR ''/'' \<notin> set f"
  shows "names_fingerprint fingerprint (''/'' @ v @ ''/images/'' @ f) \<longleftrightarrow> f = fingerprint"
  using Sscanf_images_url [OF assms] by (simp add: names_fingerprint_def)


subsection \<open>Alias records\<close>

text \<open>
  C9. In every image record returned by \<^verbatim>\<open>doImageGet\<close>, hence by \<^verbatim>\<open>imageGet\<close> and by the
  recursive listing, each alias entry's description equals its name; and the result does
  not depend on the descriptions stored in \<^verbatim>\<open>images_aliases\<close>.
\<close>

theorem alias_description_is_name:
  "(case doImageGet d fingerprint public of Inl e \<Rightarrow> True | Inr info \<Rightarrow> names_only info)
   \<and> (case imageGet d operations r of Inl e \<Rightarrow> True | Inr info \<Rightarrow> names_only info)
   \<and> (case doImagesGet d True public of
         Urls urls \<Rightarrow> False
       | Records infos \<Rightarrow> list_all names_only infos)
   \<and> doImageGet (d\<lparr>images_aliases :=
          map (\<lambda>a. a\<lparr>alias_description := f a\<rparr>) (images_aliases d)\<rparr>) fingerprint public
       = doImageGet d fingerprint public"
proof (intro conjI)
  show "case doImageGet d fingerprint public of Inl e \<Rightarrow> True | Inr info \<Rightarrow> names_only info"
    by (rule doImageGet_names_only)
  show "case imageGet d operations r of Inl e \<Rightarrow> True | Inr info \<Rightarrow> names_only info"
    unfolding imageGet_def Let_def by (rule doImageGet_names_only)
  show "case doImagesGet d True public of
         Urls urls \<Rightarrow> False
       | Records infos \<Rightarrow> list_all names_only infos"
    by (simp add: doImagesGet_def Let_def recursion_results_names_only)
  show "doImageGet (d\<lparr>images_aliases :=
          map (\<lambda>a. a\<lparr>alias_description := f a\<rparr>) (images_aliases d)\<rparr>) fingerprint public
       = doImageGet d fingerprint public"
    by (rule doImageGet_ignores_descriptions)
qed

theorem alias_description_is_name_witness:
  "(case doImageGet store_demo ''aa11'' False of Inl e \<Rightarrow> [] | Inr info \<Rightarrow> Aliases info)
     = [\<lparr>Name = ''alpine'', Description = ''alpine''\<rparr>]"
  using alias_description_is_name [of store_demo "''aa11''" False]
  by (simp add: doImageGet_def dbImageGet_def store_demo_def alias_results_def)

subsection \<open>Untrusted requests\<close>

text \<open>
  C3. For a request of an untrusted client: the listing is the listing of the public part
  of the store; a fetch or an export without a valid secret is answered from the public
  part of the store alone; with a valid secret it is answered exactly as for a trusted
  client, for the requested fingerprint. A secret is valid exactly when some operation
  of the registry has an \<^verbatim>\<open>images\<close> resource naming the requested fingerprint and holds
  that secret. (The row filter of \<^verbatim>\<open>dbImageGet\<close> is modelled from the spec.)
\<close>

theorem untrusted_reads_public_only:
  assumes "\<not> trusted r"
  shows "imagesGet d (trusted r) recursion = imagesGet (public_view d) (trusted r) recursion
    \<and> imageGet d operations r =
        (if imageValidSecret operations (url_fingerprint r) (form_secret r)
         then imageGet d operations (r\<lparr>trusted := True\<rparr>)
         else imageGet (public_view d) operations r)
    \<and> imageExport dm operations r =
        (if imageValidSecret operations (url_fingerprint r) (form_secret r)
         then imageExport dm operations (r\<lparr>trusted := True\<rparr>)
         else imageExport (dm\<lparr>db := public_view (db dm)\<rparr>) operations r)
    \<and> imageValidSecret operations (url_fingerprint r) (form_secret r) =
        list_ex (\<lambda>operation. \<exists>resources opImages.
                   op_Resources operation = Some resources
                 \<and> resources ''images'' = Some opImages
                 \<and> list_ex (names_fingerprint (url_fingerprint r)) opImages
                 \<and> op_secret operation = Some (form_secret r)) operations"
proof (intro conjI)
  show "imagesGet d (trusted r) recursion = imagesGet (public_view d) (trusted r) recursion"
    using assms by (simp add: imagesGet_def doImagesGet_public_view)
  show "imageGet d operations r =
        (if imageValidSecret operations (url_fingerprint r) (form_secret r)
         then imageGet d operations (r\<lparr>trusted := True\<rparr>)
         else imageGet (public_view d) operations r)"
    using assms by (simp add: imageGet_def Let_def doImageGet_public_view)
  show "imageExport dm operations r =
        (if imageValidSecret operations (url_fingerprint r) (form_secret r)
         then imageExport dm operations (r\<lparr>trusted := True\<rparr>)
         else imageExport (dm\<lparr>db := public_view (db dm)\<rparr>) operations r)"
    using assms by (simp add: imageExport_def Let_def dbImageGet_public_view split: sum.splits)
  show "imageValidSecret operations (url_fingerprint r) (form_secret r) =
        list_ex (\<lambda>operation. \<exists>resources opImages.
                   op_Resources operation = Some resources
                 \<and> resources ''images'' = Some opImages
                 \<and> list_ex (names_fingerprint (url_fingerprint r)) opImages
                 \<and> op_secret operation = Some (form_secret r)) operations"
    by (rule imageValidSecret_iff)
qed

theorem untrusted_reads_public_only_witness:
  "imageGet store_demo operations_demo \<lparr>trusted = False, url_fingerprint = ''bb22'', form_secret = []\<rparr>
     = Inl (SmartError NoSuchObject)
   \<and> imagesGet store_demo False True = imagesGet (public_view store_demo) False True"
  using untrusted_reads_public_only [of
      "\<lparr>trusted = False, url_fingerprint = ''bb22'', form_secret = []\<rparr>" store_demo True
      operations_demo daemon_demo]
  by (simp add: imageGet_def doImageGet_def dbImageGet_def store_demo_def operations_demo_def
      op_grants_def names_fingerprint_def Sscanf_images_def slashes_to_spaces_def skip_spaces_def
      public_view_def)


text \<open>With the secret of the operation the private image is readable.\<close>

lemma secret_demo:
  "(case imageGet store_demo operations_demo
           \<lparr>trusted = False, url_fingerprint = ''bb22'', form_secret = ''s3cret''\<rparr> of
      Inl e \<Rightarrow> [] | Inr info \<Rightarrow> Fingerprint info) = ''bb22''"
  by (simp add: imageGet_def doImageGet_def dbImageGet_def store_demo_def operations_demo_def
      op_grants_def names_fingerprint_def Sscanf_images_def slashes_to_spaces_def skip_spaces_def)


section \<open>Ingestion of a duplicate and deletion\<close>

subsection \<open>What the sidecar build and the file moves leave unchanged\<close>

lemma run_db: "db (snd (run w a d)) = db d"
  by (simp add: run_def)

lemma untar_db: "db (snd (untar w d tarball dest)) = db d"
  by (simp add: untar_def run_def Let_def split: sum.splits prod.splits)

lemma untarImage_db: "db (snd (untarImage w d imagefname destpath)) = db d"
proof -
  have a: "db (snd (untar w d imagefname destpath)) = db d" by (rule untar_db)
  show ?thesis
    using a untar_db [of w "snd (run w (MkdirAll (destpath @ ''/rootfs'')) (snd (untar w d imagefname destpath)))"]
    by (auto simp: untarImage_def Let_def run_def split: prod.splits option.splits)
qed

lemma btrfsMakeSubvol_db: "db (snd (btrfsMakeSubvol w subvol d)) = db d"
  by (simp add: btrfsMakeSubvol_def run_def Let_def)

lemma untarImage_db_pair: "untarImage w d imagefname destpath = (e, d') \<Longrightarrow> db d' = db d"
  using untarImage_db [of w d imagefname destpath] by simp

lemma createImageLV_db: "db (snd (createImageLV w d builddir fingerprint vgname)) = db d"
  by (auto simp: createImageLV_def Let_def run_def split: prod.splits dest!: untarImage_db_pair)

lemma buildOtherFs_db: "db (snd (buildOtherFs w d builddir fp)) = db d"
proof -
  have "db (snd (untarImage w (snd (btrfsMakeSubvol w (Join builddir fp @ ''.btrfs'') d))
            (Join builddir fp) (Join builddir fp @ ''.btrfs''))) = db d"
    by (simp add: untarImage_db btrfsMakeSubvol_db)
  then show ?thesis
    using btrfsMakeSubvol_db [of w "Join builddir fp @ ''.btrfs''" d]
    by (auto simp: buildOtherFs_def createImageLV_db Let_def
        split: sum.splits option.splits prod.splits)
qed

lemma pullOutImagefiles_log: "log (snd (pullOutImagefiles d builddir fingerprint)) = log d"
  by (auto simp: pullOutImagefiles_def Let_def split: prod.splits option.splits)

lemma pullOutImagefiles_log_pair:
  "pullOutImagefiles d builddir fingerprint = (e, d') \<Longrightarrow> log d' = log d"
  using pullOutImagefiles_log [of d builddir fingerprint] by simp

lemma buildImageFromInfo_sidecar_first:
  "log (snd (buildImageFromInfo w d info builddir)) =
     log (snd (buildOtherFs w d builddir (Fingerprint info)))"
  by (auto simp: buildImageFromInfo_def split: prod.splits option.splits sum.splits
      dest!: pullOutImagefiles_log_pair)

lemma buildImageFromInfo_duplicate:
  assumes "Fingerprint info \<in> set (map row_fingerprint (images (db d)))"
  shows "buildImageFromInfo w d info builddir =
     (case buildOtherFs w d builddir (Fingerprint info) of
        (Some err, d1) \<Rightarrow> (Inl err, d1)
      | (None, d1) \<Rightarrow> (Inl UniqueConstraint, d1))"
proof -
  obtain e d1 where b: "buildOtherFs w d builddir (Fingerprint info) = (e, d1)"
    by (cases "buildOtherFs w d builddir (Fingerprint info)")
  then have "db d1 = db d" using buildOtherFs_db [of w d builddir "Fingerprint info"] by simp
  with assms b show ?thesis
    by (simp add: buildImageFromInfo_def dbInsertImage_def split: option.splits)
qed


lemma btrfsDeleteSubvol_db: "db (btrfsDeleteSubvol w subvol d) = db d"
  by (simp add: btrfsDeleteSubvol_def run_def Let_def)

lemma delete_sidecar_db:
  "delete_sidecar w d vg fingerprint fname = (e, d') \<Longrightarrow> db d' = db d"
  by (auto simp: delete_sidecar_def run_def btrfsDeleteSubvol_db Let_def
      split: option.splits if_splits prod.splits)

lemma delete_rows_tables:
  "images (delete_rows d i) = filter (\<lambda>r. row_id r \<noteq> i) (images d)"
  "images_aliases (delete_rows d i) = filter (\<lambda>a. alias_image_id a \<noteq> i) (images_aliases d)"
  "images_properties (delete_rows d i) = images_properties d"
  by (simp_all add: delete_rows_def tx_Exec_def Let_def)

text \<open>
  A successful \<^verbatim>\<open>imageDelete\<close> changes the database by \<open>delete_rows\<close> only: the image row
  and its alias rows go, every property row stays.
\<close>

lemma imageDelete_rows:
  assumes "imageDelete w d fingerprint = (Inr (), d')"
  shows "\<exists>r. dbImageGet (db d) fingerprint False = Inr r
           \<and> db d' = delete_rows (db d) (row_id r)"
proof (cases "dbImageGet (db d) fingerprint False")
  case (Inl e)
  with assms show ?thesis by (simp add: imageDelete_def)
next
  case (Inr r)
  define d2 where "d2 =
    (let fname = VarPath ''images'' (row_fingerprint r);
         d1 = d\<lparr>fs := snd (os_Remove fname (fs d))\<rparr>;
         fmetaname = VarPath ''images'' (row_fingerprint r @ ''.rootfs'')
     in if PathExists (fs d1) fmetaname
        then d1\<lparr>fs := snd (os_Remove fmetaname (fs d1))\<rparr> else d1)"
  have d2: "db d2 = db d" by (simp add: d2_def Let_def)
  from assms Inr obtain vg d3 where
    side: "delete_sidecar w d2 vg (row_fingerprint r) (VarPath ''images'' (row_fingerprint r)) = (None, d3)"
    and d': "d' = d3\<lparr>db := delete_rows (db d3) (row_id r)\<rparr>"
    by (auto simp: imageDelete_def d2_def Let_def split: sum.splits prod.splits option.splits)
  from delete_sidecar_db [OF side] d2 have "db d3 = db d" by simp
  with d' Inr show ?thesis by simp
qed

subsection \<open>A duplicate upload\<close>

text \<open>
  C1 fails on the pipeline of \<^verbatim>\<open>src/lxd/images.go\<close>. The store of \<open>daemon_demo\<close> holds an
  image with fingerprint \<open>aa11\<close>, the daemon runs on btrfs, and the upload hashes to
  \<open>aa11\<close>. The request is refused only by the unique index when the row is inserted; by
  then the subvolume for the duplicate has been created and the tarball unpacked into it
  (the two subvolume deletions at the end of the log are the deferred cleanup).
\<close>

theorem imagesPost_duplicate_builds_sidecar:
  "sha256_hex world_demo (post_body upload_demo)
     \<in> set (map row_fingerprint (images (db daemon_demo)))
   \<and> fst (imagesPost world_demo daemon_demo upload_demo) = Inl (SmartError UniqueConstraint)
   \<and> log (snd (imagesPost world_demo daemon_demo upload_demo)) =
       [MkdirAll ''/var/lib/lxd/images'',
        TempDir ''/var/lib/lxd/images'' ''lxd_build_'',
        TempFile ''/var/lib/lxd/images/lxd_build_a'' ''lxd_post_'',
        TempFile ''/var/lib/lxd/images/lxd_build_a'' ''lxd_tar_'',
        BtrfsMakeSubvol ''/var/lib/lxd/images/lxd_build_a/aa11.btrfs'',
        Tar [''-C'', ''/var/lib/lxd/images/lxd_build_a/aa11.btrfs'', ''--numeric-owner'',
             ''-zxf'', ''/var/lib/lxd/images/lxd_build_a/aa11''],
        BtrfsDeleteSubvol ''/var/lib/lxd/images/lxd_build_a/aa11.btrfs'',
        BtrfsDeleteSubvol ''/var/lib/lxd/images/lxd_build_a/aa11'']"
  by code_simp

subsection \<open>Deleting an image that has properties\<close>

text \<open>
  C2 fails on the code. Deleting the image \<open>aa11\<close> of \<open>daemon_demo\<close> returns success; the
  image row, its alias row, the content file and the subvolume are gone, but the property
  row of the image (image id 1) is still in \<^verbatim>\<open>images_properties\<close>.
\<close>

theorem imageDelete_leaves_property_rows:
  "imageDelete world_demo daemon_demo ''aa11'' =
     (Inr (),
      \<lparr>db = \<lparr>images =
               [\<lparr>row_id = 2, row_fingerprint = ''bb22'', row_filename = [], row_size = 200,
                 row_public = 0, row_architecture = 2, row_creation_date = 11,
                 row_expiry_date = 21, row_upload_date = 31\<rparr>],
             images_properties =
               [\<lparr>prop_image_id = 1, prop_type = 0, prop_key = ''os'', prop_value = ''alpine''\<rparr>,
                \<lparr>prop_image_id = 2, prop_type = 0, prop_key = ''os'',
                 prop_value = ''internal''\<rparr>],
             images_aliases =
               [\<lparr>alias_id = 2, alias_name = ''build'', alias_image_id = 2,
                 alias_description = ''Internal build''\<rparr>]\<rparr>,
       fs = [(''/var/lib/lxd/images/bb22'', File gzip_bytes),
             (''/var/lib/lxd/images/bb22.btrfs'', Subvol)],
       BackingFs = ''btrfs'',
       server_config = Inr [],
       log = [BtrfsDeleteSubvol ''/var/lib/lxd/images/aa11.btrfs'']\<rparr>)"
  by code_simp

section \<open>Container copy coordinator: \<^verbatim>\<open>copyContainer\<close> of \<^verbatim>\<open>src/lxc/copy.go\<close>\<close>

text \<open>
  \<^verbatim>\<open>shared.ContainerState\<close> as far as \<^verbatim>\<open>copyContainer\<close> reads it. \<^verbatim>\<open>Config\<close> is a Go map;
  it is kept as an association list with distinct keys so that the arguments of the
  requests can be compared. \<^verbatim>\<open>lxd.Response\<close> carries the operation path and the raw JSON
  metadata.
\<close>

record ContainerState =
  Config :: "(string \<times> string) list"
  Profiles :: "string list"

record Response =
  Operation :: string
  Metadata :: string

text \<open>
  Every request that the client can send, with its arguments. The first argument is the
  remote whose client object sends it. \<^verbatim>\<open>lxd.NewClient\<close> is recorded as well, although it
  only builds the client object.
\<close>

datatype call =
    NewClientCall string
  | ContainerStatusCall string string
  | LocalCopyCall string string string "(string \<times> string) list" "string list"
  | WaitForSuccessCall string string
  | ListProfilesCall string
  | GetMigrationSourceWSCall string string
  | AddressesCall string
  | MigrateFromCall string string string "(string \<times> string) list"
      "(string \<times> string) list" "string list" string

text \<open>
  The daemons and library functions that \<^verbatim>\<open>copyContainer\<close> talks to are not part of the
  file; their answers are the fields of \<open>peers\<close>. \<open>DefaultRemote\<close> is the field of
  \<^verbatim>\<open>lxd.Config\<close> used for a resource without a remote; \<open>IsSnapshot\<close> is
  \<^verbatim>\<open>shared.IsSnapshot\<close>; \<open>Unmarshal\<close> is \<^verbatim>\<open>json.Unmarshal\<close> into a string map.
\<close>

record peers =
  DefaultRemote :: string
  IsSnapshot :: "string \<Rightarrow> bool"
  NewClient :: "string \<Rightarrow> error option"
  ContainerStatus :: "string \<Rightarrow> string \<Rightarrow> error + ContainerState"
  LocalCopy :: "string \<Rightarrow> string \<Rightarrow> string \<Rightarrow> (string \<times> string) list \<Rightarrow> string list
                \<Rightarrow> error + Response"
  WaitForSuccess :: "string \<Rightarrow> string \<Rightarrow> error option"
  ListProfiles :: "string \<Rightarrow> error + string list"
  GetMigrationSourceWS :: "string \<Rightarrow> string \<Rightarrow> error + Response"
  Unmarshal :: "string \<Rightarrow> error + (string \<times> string) list"
  Addresses :: "string \<Rightarrow> error + string list"
  MigrateFrom :: "string \<Rightarrow> string \<Rightarrow> string \<Rightarrow> (string \<times> string) list
                  \<Rightarrow> (string \<times> string) list \<Rightarrow> string list \<Rightarrow> string \<Rightarrow> error + Response"

text \<open>
  Modelled from the spec: \<^verbatim>\<open>Config.ParseRemoteAndContainer\<close> is not among the source files.
  The spec gives the identifier the form \<^verbatim>\<open>[remote:]name\<close>: the text before the first
  colon is the remote, the rest the name, and an identifier without a colon names a
  container on the default remote.
\<close>

definition ParseRemoteAndContainer :: "peers \<Rightarrow> string \<Rightarrow> string \<times> string" where
  "ParseRemoteAndContainer w raw =
     (if CHR '':'' \<in> set raw
      then (takeWhile (\<lambda>c. c \<noteq> CHR '':'') raw, tl (dropWhile (\<lambda>c. c \<noteq> CHR '':'') raw))
      else (DefaultRemote w, raw))"

text \<open>\<^verbatim>\<open>strings.HasPrefix(k, "volatile")\<close> and the deletion loop over \<^verbatim>\<open>status.Config\<close>.\<close>

definition HasPrefix :: "string \<Rightarrow> string \<Rightarrow> bool" where
  "HasPrefix s p = (take (length p) s = p)"

definition strip_volatile :: "(string \<times> string) list \<Rightarrow> (string \<times> string) list" where
  "strip_volatile cfg = filter (\<lambda>(k, v). \<not> HasPrefix k ''volatile'') cfg"

text \<open>A Go map read \<^verbatim>\<open>m[k]\<close>: the empty string when the key is absent.\<close>

definition map_index :: "(string \<times> string) list \<Rightarrow> string \<Rightarrow> string" where
  "map_index m k = (case map_of m k of None \<Rightarrow> [] | Some v \<Rightarrow> v)"

text \<open>\<^verbatim>\<open>path.Join(op, "websocket")\<close> for an operation path that is already clean.\<close>

definition path_Join :: "string \<Rightarrow> string \<Rightarrow> string" where
  "path_Join a b = (if a = [] then b else a @ ''/'' @ b)"

definition sourceWSUrl :: "string \<Rightarrow> string \<Rightarrow> string" where
  "sourceWSUrl addr operation = ''wss://'' @ addr @ path_Join operation ''websocket''"

text \<open>
  The loop \<^verbatim>\<open>for _, addr := range addresses\<close> with the value of \<^verbatim>\<open>err\<close> on entry as the
  last argument; the result is what \<^verbatim>\<open>copyContainer\<close> returns (\<open>None\<close> is \<^verbatim>\<open>nil\<close>)
  together with the requests sent, in order.
\<close>

fun migrate_loop ::
  "peers \<Rightarrow> string \<Rightarrow> string \<Rightarrow> string \<Rightarrow> (string \<times> string) list \<Rightarrow> (string \<times> string) list
    \<Rightarrow> string list \<Rightarrow> string \<Rightarrow> string list \<Rightarrow> error option \<Rightarrow> error option \<times> call list" where
  "migrate_loop w destRemote destName operation secrets cfg profs baseImage [] err = (err, [])"
| "migrate_loop w destRemote destName operation secrets cfg profs baseImage (addr # addrs) err =
     (let url = sourceWSUrl addr operation;
          c = MigrateFromCall destRemote destName url secrets cfg profs baseImage
      in case MigrateFrom w destRemote destName url secrets cfg profs baseImage of
           Inl e \<Rightarrow>
             (let (r, t) = migrate_loop w destRemote destName operation secrets cfg profs
                             baseImage addrs (Some e)
              in (r, c # t))
         | Inr migration \<Rightarrow>
             (case WaitForSuccess w destRemote (Operation migration) of
                Some e \<Rightarrow>
                  (let (r, t) = migrate_loop w destRemote destName operation secrets cfg profs
                                  baseImage addrs (Some e)
                   in (r, c # WaitForSuccessCall destRemote (Operation migration) # t))
              | None \<Rightarrow> (None, [c, WaitForSuccessCall destRemote (Operation migration)])))"

text \<open>The \<^verbatim>\<open>else\<close> branch of \<^verbatim>\<open>copyContainer\<close>: source and destination remotes differ.\<close>

definition migrate ::
  "peers \<Rightarrow> string \<Rightarrow> string \<Rightarrow> string \<Rightarrow> string \<Rightarrow> ContainerState \<Rightarrow> string
    \<Rightarrow> error option \<times> call list" where
  "migrate w sourceRemote sourceName destRemote destName status baseImage =
     (case NewClient w destRemote of
        Some e \<Rightarrow> (Some e, [NewClientCall destRemote])
      | None \<Rightarrow>
     (case ListProfiles w destRemote of
        Inl e \<Rightarrow> (Some e, [NewClientCall destRemote, ListProfilesCall destRemote])
      | Inr destProfs \<Rightarrow>
     if \<not> set (Profiles status) \<subseteq> set destProfs
     then (Some MissingProfiles, [NewClientCall destRemote, ListProfilesCall destRemote])
     else
     (case GetMigrationSourceWS w sourceRemote sourceName of
        Inl e \<Rightarrow> (Some e, [NewClientCall destRemote, ListProfilesCall destRemote,
                              GetMigrationSourceWSCall sourceRemote sourceName])
      | Inr sourceWSResponse \<Rightarrow>
     (case Unmarshal w (Metadata sourceWSResponse) of
        Inl e \<Rightarrow> (Some e, [NewClientCall destRemote, ListProfilesCall destRemote,
                              GetMigrationSourceWSCall sourceRemote sourceName])
      | Inr secrets \<Rightarrow>
     (case Addresses w sourceRemote of
        Inl e \<Rightarrow> (Some e, [NewClientCall destRemote, ListProfilesCall destRemote,
                              GetMigrationSourceWSCall sourceRemote sourceName,
                              AddressesCall sourceRemote])
      | Inr addresses \<Rightarrow>
          (let (r, t) = migrate_loop w destRemote destName (Operation sourceWSResponse) secrets
                          (Config status) (Profiles status) baseImage addresses None
           in (r, [NewClientCall destRemote, ListProfilesCall destRemote,
                   GetMigrationSourceWSCall sourceRemote sourceName,
                   AddressesCall sourceRemote] @ t)))))))"

text \<open>The \<^verbatim>\<open>if sourceRemote == destRemote\<close> branch.\<close>

definition local_copy ::
  "peers \<Rightarrow> string \<Rightarrow> string \<Rightarrow> string \<Rightarrow> ContainerState \<Rightarrow> error option \<times> call list" where
  "local_copy w sourceRemote sourceName destName status =
     (if sourceName = destName then (Some IllegalCopy, [])
      else
        (case LocalCopy w sourceRemote sourceName destName (Config status) (Profiles status) of
           Inl e \<Rightarrow> (Some e, [LocalCopyCall sourceRemote sourceName destName (Config status)
                                  (Profiles status)])
         | Inr cp \<Rightarrow>
             (WaitForSuccess w sourceRemote (Operation cp),
              [LocalCopyCall sourceRemote sourceName destName (Config status) (Profiles status),
               WaitForSuccessCall sourceRemote (Operation cp)])))"

text \<open>
  The block \<^verbatim>\<open>if !shared.IsSnapshot(sourceName) { ... }\<close>: the status starts as the empty
  \<^verbatim>\<open>ContainerState\<close> and the base image as the empty string; for a container the status
  is read from the source daemon, \<^verbatim>\<open>volatile.base_image\<close> is taken from its configuration
  and, unless \<^verbatim>\<open>keepVolatile\<close>, the volatile keys are deleted. The result is the status,
  the base image and the requests sent.
\<close>

definition source_status ::
  "peers \<Rightarrow> string \<Rightarrow> string \<Rightarrow> bool \<Rightarrow> error + (ContainerState \<times> string \<times> call list)" where
  "source_status w sourceRemote sourceName keepVolatile =
     (if \<not> IsSnapshot w sourceName
      then (case ContainerStatus w sourceRemote sourceName of
              Inl e \<Rightarrow> Inl e
            | Inr st \<Rightarrow>
                Inr (st\<lparr>Config := (if \<not> keepVolatile then strip_volatile (Config st)
                                         else Config st)\<rparr>,
                     map_index (Config st) ''volatile.base_image'',
                     [ContainerStatusCall sourceRemote sourceName]))
      else Inr (\<lparr>Config = [], Profiles = []\<rparr>, [], []))"

text \<open>\<^verbatim>\<open>copyContainer(config, sourceResource, destResource, keepVolatile)\<close>.\<close>

definition copyContainer :: "peers \<Rightarrow> string \<Rightarrow> string \<Rightarrow> bool \<Rightarrow> error option \<times> call list" where
  "copyContainer w sourceResource destResource keepVolatile =
     (let (sourceRemote, sourceName) = ParseRemoteAndContainer w sourceResource;
          (destRemote, destName0) = ParseRemoteAndContainer w destResource
      in
      if sourceName = [] then (Some NoSourceName, [])
      else
        let destName = (if destName0 = [] then sourceName else destName0) in
        (case NewClient w sourceRemote of
           Some e \<Rightarrow> (Some e, [NewClientCall sourceRemote])
         | None \<Rightarrow>
             (case source_status w sourceRemote sourceName keepVolatile of
                Inl e \<Rightarrow> (Some e, [NewClientCall sourceRemote,
                                      ContainerStatusCall sourceRemote sourceName])
              | Inr (status, baseImage, t0) \<Rightarrow>
                  (let (r, t) =
                     (if sourceRemote = destRemote
                      then local_copy w sourceRemote sourceName destName status
                      else migrate w sourceRemote sourceName destRemote destName status baseImage)
                   in (r, NewClientCall sourceRemote # t0 @ t)))))"

text \<open>
  One pass through the loop body for one address: the error it leaves in \<^verbatim>\<open>err\<close>, or
  \<open>None\<close> when both the migration request and the wait succeed.
\<close>

definition attempt ::
  "peers \<Rightarrow> string \<Rightarrow> string \<Rightarrow> string \<Rightarrow> (string \<times> string) list \<Rightarrow> (string \<times> string) list
    \<Rightarrow> string list \<Rightarrow> string \<Rightarrow> string \<Rightarrow> error option" where
  "attempt w destRemote destName operation secrets cfg profs baseImage addr =
     (case MigrateFrom w destRemote destName (sourceWSUrl addr operation) secrets cfg profs
             baseImage of
        Inl e \<Rightarrow> Some e
      | Inr migration \<Rightarrow> WaitForSuccess w destRemote (Operation migration))"

text \<open>The websocket URLs of the migration requests in a list of requests, in order.\<close>

fun migrate_urls :: "call list \<Rightarrow> string list" where
  "migrate_urls [] = []"
| "migrate_urls (MigrateFromCall r n url secrets cfg profs img # cs) = url # migrate_urls cs"
| "migrate_urls (c # cs) = migrate_urls cs"

text \<open>
  The addresses up to and including the first one that satisfies \<open>good\<close>; all of them
  when none does.
\<close>

fun upto_first :: "('a \<Rightarrow> bool) \<Rightarrow> 'a list \<Rightarrow> 'a list" where
  "upto_first good [] = []"
| "upto_first good (a # as) = (if good a then [a] else a # upto_first good as)"

text \<open>
  Concrete peers for the examples. In \<open>peers_two_addresses\<close> the source daemon advertises
  two addresses and the destination can only reach the second; in \<open>peers_no_addresses\<close>
  it advertises none; in \<open>peers_missing_source\<close> the source container does not exist.
\<close>

definition peers_two_addresses :: peers where
  "peers_two_addresses =
     \<lparr>DefaultRemote = ''local'',
      IsSnapshot = (\<lambda>n. CHR ''/'' \<in> set n),
      NewClient = (\<lambda>r. None),
      ContainerStatus = (\<lambda>r n. if n = ''c1''
         then Inr \<lparr>Config = [(''volatile.base_image'', ''ab12''), (''limits.cpu'', ''2'')],
                   Profiles = [''default'']\<rparr>
         else Inl (Failure ''not found'')),
      LocalCopy = (\<lambda>r s d c p. Inr \<lparr>Operation = ''/1.0/operations/cp'', Metadata = []\<rparr>),
      WaitForSuccess = (\<lambda>r operation. None),
      ListProfiles = (\<lambda>r. Inr [''default'', ''web'']),
      GetMigrationSourceWS = (\<lambda>r n. Inr \<lparr>Operation = ''/1.0/operations/ws'', Metadata = ''{}''\<rparr>),
      Unmarshal = (\<lambda>m. Inr [(''control'', ''s1'')]),
      Addresses = (\<lambda>r. Inr [''10.0.0.1'', ''10.0.0.2'']),
      MigrateFrom = (\<lambda>r n url secrets c p img.
         if url = ''wss://10.0.0.2/1.0/operations/ws/websocket''
         then Inr \<lparr>Operation = ''/1.0/operations/m2'', Metadata = []\<rparr>
         else Inl (Failure ''dial''))\<rparr>"

definition peers_no_addresses :: peers where
  "peers_no_addresses = peers_two_addresses\<lparr>Addresses := (\<lambda>r. Inr [])\<rparr>"

definition peers_missing_source :: peers where
  "peers_missing_source =
     peers_two_addresses\<lparr>ContainerStatus := (\<lambda>r n. Inl (Failure ''not found''))\<rparr>"

subsection \<open>The address loop\<close>

lemma migrate_loop_result:
  "fst (migrate_loop w dr dn operation secrets cfg profs img addrs err) =
     (if \<exists>a \<in> set addrs. attempt w dr dn operation secrets cfg profs img a = None then None
      else if addrs = [] then err
      else attempt w dr dn operation secrets cfg profs img (last addrs))"
proof (induction addrs arbitrary: err)
  case Nil
  show ?case by simp
next
  case (Cons a as)
  show ?case
  proof (cases "attempt w dr dn operation secrets cfg profs img a")
    case None
    then show ?thesis
      by (auto simp: attempt_def Let_def split: sum.splits option.splits prod.splits)
  next
    case (Some e)
    then have step: "fst (migrate_loop w dr dn operation secrets cfg profs img (a # as) err) =
        fst (migrate_loop w dr dn operation secrets cfg profs img as (Some e))"
      by (auto simp: attempt_def Let_def split: sum.splits option.splits prod.splits)
    show ?thesis
      unfolding step Cons.IH using Some by auto
  qed
qed

lemma migrate_loop_urls:
  "migrate_urls (snd (migrate_loop w dr dn operation secrets cfg profs img addrs err)) =
     map (\<lambda>a. sourceWSUrl a operation)
       (upto_first (\<lambda>a. attempt w dr dn operation secrets cfg profs img a = None) addrs)"
proof (induction addrs arbitrary: err)
  case Nil
  show ?case by simp
next
  case (Cons a as)
  show ?case
  proof (cases "attempt w dr dn operation secrets cfg profs img a")
    case None
    then show ?thesis
      by (auto simp: attempt_def Let_def split: sum.splits option.splits prod.splits)
  next
    case (Some e)
    then have step: "migrate_urls (snd (migrate_loop w dr dn operation secrets cfg profs img (a # as) err)) =
        sourceWSUrl a operation #
        migrate_urls (snd (migrate_loop w dr dn operation secrets cfg profs img as (Some e)))"
      by (auto simp: attempt_def Let_def split: sum.splits option.splits prod.splits)
    show ?thesis
      unfolding step Cons.IH using Some by simp
  qed
qed

lemma copyContainer_cross_remote:
  assumes "ParseRemoteAndContainer w src = (sr, sn)"
    and "ParseRemoteAndContainer w dst = (dr, dn0)"
    and "sn \<noteq> []" and "sr \<noteq> dr"
    and "NewClient w sr = None"
    and "source_status w sr sn keep = Inr (status, img, t0)"
    and "NewClient w dr = None"
    and "ListProfiles w dr = Inr destProfs"
    and "set (Profiles status) \<subseteq> set destProfs"
    and "GetMigrationSourceWS w sr sn = Inr ws"
    and "Unmarshal w (Metadata ws) = Inr secrets"
    and "Addresses w sr = Inr addrs"
    and "dn = (if dn0 = [] then sn else dn0)"
    and "migrate_loop w dr dn (Operation ws) secrets (Config status) (Profiles status) img addrs None = (r, t)"
  shows "copyContainer w src dst keep =
           (r, NewClientCall sr # t0 @
               [NewClientCall dr, ListProfilesCall dr, GetMigrationSourceWSCall sr sn,
                AddressesCall sr] @ t)"
  using assms by (simp add: copyContainer_def migrate_def Let_def)


text \<open>
  C8. In a cross-remote copy whose preparation succeeded (clients, status, profile subset
  check, migration source websocket, secrets, address list), the migration requests go to
  the advertised addresses in order, up to and including the first address whose request
  and wait both succeed. If there is such an address the copy returns success; otherwise
  it returns the error of the last address.
\<close>

theorem copyContainer_address_loop:
  assumes "ParseRemoteAndContainer w src = (sr, sn)"
    and "ParseRemoteAndContainer w dst = (dr, dn0)"
    and "sn \<noteq> []" and "sr \<noteq> dr"
    and "NewClient w sr = None"
    and "source_status w sr sn keep = Inr (status, img, t0)"
    and "NewClient w dr = None"
    and "ListProfiles w dr = Inr destProfs"
    and "set (Profiles status) \<subseteq> set destProfs"
    and "GetMigrationSourceWS w sr sn = Inr ws"
    and "Unmarshal w (Metadata ws) = Inr secrets"
    and "Addresses w sr = Inr addrs"
    and "dn = (if dn0 = [] then sn else dn0)"
    and "failed = attempt w dr dn (Operation ws) secrets (Config status) (Profiles status) img"
  shows "fst (copyContainer w src dst keep) =
           (if \<exists>a \<in> set addrs. failed a = None then None
            else if addrs = [] then None
            else failed (last addrs))
         \<and> migrate_urls (snd (copyContainer w src dst keep)) =
           map (\<lambda>a. sourceWSUrl a (Operation ws)) (upto_first (\<lambda>a. failed a = None) addrs)"
proof -
  obtain r t where loop:
    "migrate_loop w dr dn (Operation ws) secrets (Config status) (Profiles status) img addrs None = (r, t)"
    by (cases "migrate_loop w dr dn (Operation ws) secrets (Config status) (Profiles status) img addrs None")
  have run: "copyContainer w src dst keep =
           (r, NewClientCall sr # t0 @
               [NewClientCall dr, ListProfilesCall dr, GetMigrationSourceWSCall sr sn,
                AddressesCall sr] @ t)"
    using assms(1-13) loop by (rule copyContainer_cross_remote)
  have t0: "migrate_urls t0 = []"
    using assms(6) by (auto simp: source_status_def split: if_splits sum.splits)
  have app: "\<And>xs ys. migrate_urls (xs @ ys) = migrate_urls xs @ migrate_urls ys"
    subgoal for xs ys by (induction xs rule: migrate_urls.induct) simp_all
    done
  have r: "r = fst (migrate_loop w dr dn (Operation ws) secrets (Config status) (Profiles status) img addrs None)"
    and t: "t = snd (migrate_loop w dr dn (Operation ws) secrets (Config status) (Profiles status) img addrs None)"
    using loop by simp_all
  show ?thesis
    unfolding run
    by (auto simp: app t0 r t migrate_loop_result migrate_loop_urls assms(14))
qed

theorem copyContainer_address_loop_witness:
  "fst (copyContainer peers_two_addresses ''lxd1:c1'' ''lxd2:c2'' False) = None
   \<and> migrate_urls (snd (copyContainer peers_two_addresses ''lxd1:c1'' ''lxd2:c2'' False)) =
       [''wss://10.0.0.1/1.0/operations/ws/websocket'', ''wss://10.0.0.2/1.0/operations/ws/websocket'']"
  using copyContainer_address_loop [of peers_two_addresses "''lxd1:c1''" "''lxd1''" "''c1''"
      "''lxd2:c2''" "''lxd2''" "''c2''" False
      "\<lparr>Config = [(''limits.cpu'', ''2'')], Profiles = [''default'']\<rparr>" "''ab12''"
      "[ContainerStatusCall ''lxd1'' ''c1'']" "[''default'', ''web'']"
      "\<lparr>Operation = ''/1.0/operations/ws'', Metadata = ''{}''\<rparr>" "[(''control'', ''s1'')]"
      "[''10.0.0.1'', ''10.0.0.2'']" "''c2''"
      "attempt peers_two_addresses ''lxd2'' ''c2'' ''/1.0/operations/ws'' [(''control'', ''s1'')] [(''limits.cpu'', ''2'')] [''default''] ''ab12''"]
  by (simp add: peers_two_addresses_def ParseRemoteAndContainer_def source_status_def
      strip_volatile_def HasPrefix_def map_index_def attempt_def sourceWSUrl_def path_Join_def)


text \<open>
  C10. In a cross-remote copy whose preparation succeeded, an empty address list makes
  \<^verbatim>\<open>copyContainer\<close> return \<^verbatim>\<open>nil\<close>: the loop body never runs, no migration request is sent,
  and the requests sent to the destination are the client creation and the profile
  listing only.
\<close>

theorem copyContainer_no_addresses:
  assumes "ParseRemoteAndContainer w src = (sr, sn)"
    and "ParseRemoteAndContainer w dst = (dr, dn0)"
    and "sn \<noteq> []" and "sr \<noteq> dr"
    and "NewClient w sr = None"
    and "source_status w sr sn keep = Inr (status, img, t0)"
    and "NewClient w dr = None"
    and "ListProfiles w dr = Inr destProfs"
    and "set (Profiles status) \<subseteq> set destProfs"
    and "GetMigrationSourceWS w sr sn = Inr ws"
    and "Unmarshal w (Metadata ws) = Inr secrets"
    and "Addresses w sr = Inr []"
  shows "copyContainer w src dst keep =
           (None, NewClientCall sr # t0 @
                  [NewClientCall dr, ListProfilesCall dr, GetMigrationSourceWSCall sr sn,
                   AddressesCall sr])
         \<and> migrate_urls (snd (copyContainer w src dst keep)) = []"
proof -
  have t0: "t0 = [] \<or> t0 = [ContainerStatusCall sr sn]"
    using assms(6) by (auto simp: source_status_def split: if_splits sum.splits)
  have run: "copyContainer w src dst keep =
           (None, NewClientCall sr # t0 @
                  [NewClientCall dr, ListProfilesCall dr, GetMigrationSourceWSCall sr sn,
                   AddressesCall sr])"
    using assms by (simp add: copyContainer_def migrate_def Let_def)
  from t0 show ?thesis unfolding run by auto
qed

theorem copyContainer_no_addresses_witness:
  "copyContainer peers_no_addresses ''lxd1:c1'' ''lxd2:c2'' False =
     (None, [NewClientCall ''lxd1'', ContainerStatusCall ''lxd1'' ''c1'', NewClientCall ''lxd2'',
             ListProfilesCall ''lxd2'', GetMigrationSourceWSCall ''lxd1'' ''c1'',
             AddressesCall ''lxd1''])
   \<and> migrate_urls (snd (copyContainer peers_no_addresses ''lxd1:c1'' ''lxd2:c2'' False)) = []"
  using copyContainer_no_addresses [of peers_no_addresses "''lxd1:c1''" "''lxd1''" "''c1''"
      "''lxd2:c2''" "''lxd2''" "''c2''" False
      "\<lparr>Config = [(''limits.cpu'', ''2'')], Profiles = [''default'']\<rparr>" "''ab12''"
      "[ContainerStatusCall ''lxd1'' ''c1'']" "[''default'', ''web'']"
      "\<lparr>Operation = ''/1.0/operations/ws'', Metadata = ''{}''\<rparr>" "[(''control'', ''s1'')]"]
  by (simp add: peers_no_addresses_def peers_two_addresses_def ParseRemoteAndContainer_def
      source_status_def strip_volatile_def HasPrefix_def map_index_def)

subsection \<open>Copy onto the same name\<close>

text \<open>
  C7 as stated fails: with equal remotes and equal names the copy still asks the source
  daemon for the container's status first, and when that request fails its error is
  returned instead of IllegalCopy.
\<close>

theorem copyContainer_same_name_counterexample:
  "ParseRemoteAndContainer peers_missing_source ''local:c1'' = (''local'', ''c1'')
   \<and> copyContainer peers_missing_source ''local:c1'' ''local:c1'' False =
       (Some (Failure ''not found''),
        [NewClientCall ''local'', ContainerStatusCall ''local'' ''c1''])"
  by (simp add: peers_missing_source_def peers_two_addresses_def ParseRemoteAndContainer_def
      copyContainer_def source_status_def)

text \<open>
  C7, amended. When the two remotes are equal, the source name is not empty, the
  destination name is the source name or empty, and creating the source client and
  reading the source status succeed (no status is read for a snapshot), the copy fails
  with IllegalCopy. The only request sent is the status read on the source daemon: no
  local-copy or migration request is issued and no second client is created.
\<close>

theorem copyContainer_same_name:
  assumes "ParseRemoteAndContainer w src = (r, n)"
    and "ParseRemoteAndContainer w dst = (r, n0)"
    and "n \<noteq> []"
    and "n0 = n \<or> n0 = []"
    and "NewClient w r = None"
    and "source_status w r n keep = Inr (status, img, t0)"
  shows "copyContainer w src dst keep = (Some IllegalCopy, NewClientCall r # t0)
         \<and> t0 = (if IsSnapshot w n then [] else [ContainerStatusCall r n])"
proof -
  have t0: "t0 = (if IsSnapshot w n then [] else [ContainerStatusCall r n])"
    using assms(6) by (auto simp: source_status_def split: if_splits sum.splits)
  have "copyContainer w src dst keep = (Some IllegalCopy, NewClientCall r # t0)"
    using assms by (auto simp: copyContainer_def local_copy_def Let_def)
  with t0 show ?thesis by simp
qed

theorem copyContainer_same_name_witness:
  "copyContainer peers_two_addresses ''local:c1'' ''local:c1'' False =
     (Some IllegalCopy, [NewClientCall ''local'', ContainerStatusCall ''local'' ''c1''])"
  using copyContainer_same_name [of peers_two_addresses "''local:c1''" "''local''" "''c1''"
      "''local:c1''" "''c1''" False
      "\<lparr>Config = [(''limits.cpu'', ''2'')], Profiles = [''default'']\<rparr>" "''ab12''"
      "[ContainerStatusCall ''local'' ''c1'']"]
  by (simp add: peers_two_addresses_def ParseRemoteAndContainer_def
      source_status_def strip_volatile_def HasPrefix_def map_index_def)

end
